theory Spec2Isabelle
  imports Complex_Main "HOL-Library.Stream" "HOL-Library.Log_Nat"
begin

section \<open>networkstatus.py: verdicts and their combination\<close>

text \<open>
  The evaluation criteria of a column is one of Python's \<open>None\<close>, \<open>True\<close>, \<open>False\<close>
  (\<open>StatusCheck.do_to_value\<close>): \<open>None\<close> is Unknown, \<open>True\<close> is Pass, \<open>False\<close> is Fail.
\<close>

type_synonym verdict = "bool option"

abbreviation Unknown :: verdict where "Unknown \<equiv> None"
abbreviation Pass :: verdict where "Pass \<equiv> Some True"
abbreviation Fail :: verdict where "Fail \<equiv> Some False"

text \<open>
  \<^verbatim>\<open>
  def combine_results(lhs, rhs):
      if lhs is None: return rhs
      if rhs is None: return lhs
      return lhs and rhs
  \<close>
  Python's \<open>lhs and rhs\<close> is \<open>rhs\<close> when \<open>lhs\<close> is truthy and \<open>lhs\<close> otherwise.
\<close>

definition combine_results :: "verdict \<Rightarrow> verdict \<Rightarrow> verdict" where
  "combine_results lhs rhs =
     (case lhs of
        None \<Rightarrow> rhs
      | Some l \<Rightarrow> (case rhs of
                     None \<Rightarrow> lhs
                   | Some r \<Rightarrow> (if l then rhs else lhs)))"

text \<open>\<open>functools.reduce(combine_results, results, None)\<close>: a left fold from \<open>None\<close>.\<close>

definition reduce_results :: "verdict list \<Rightarrow> verdict" where
  "reduce_results results = foldl combine_results None results"

subsection \<open>Strings of comma-separated fields\<close>

text \<open>\<open>sep.join(strings)\<close>.\<close>

fun str_join :: "string \<Rightarrow> string list \<Rightarrow> string" where
  "str_join sep [] = []"
| "str_join sep [x] = x"
| "str_join sep (x # y # ys) = x @ sep @ str_join sep (y # ys)"

text \<open>
  \<open>value.split(sep)\<close> for a separator of one character: the fields between the
  separators, so a string with \<open>n\<close> separators has \<open>n + 1\<close> fields and the empty string
  has one (empty) field.
\<close>

fun str_split :: "char \<Rightarrow> string \<Rightarrow> string list" where
  "str_split sep [] = [[]]"
| "str_split sep (c # cs) =
     (if c = sep then [] # str_split sep cs
      else (case str_split sep cs of
              [] \<Rightarrow> [[c]]
            | field # fields \<Rightarrow> (c # field) # fields))"

definition num_fields :: "string \<Rightarrow> nat" where
  "num_fields value_string = length (str_split CHR '','' value_string)"

subsection \<open>Checks\<close>

text \<open>
  A check returns the result string (CSV) and the array of the evaluation criteria of its
  columns. The object itself is modelled by its three public methods; \<open>check\<close> reads the
  outside world and may change the state of the object, so it takes the state \<open>'s\<close> and
  returns the new one.
\<close>

type_synonym check_result = "string \<times> verdict list"

record 's StatusCheck =
  check :: "'s \<Rightarrow> check_result \<times> 's"
  column_names :: string
  num_columns :: nat

text \<open>
  What an external operation did: it raised an \<open>Exception\<close> (a timeout, a non-zero exit
  code, a parse failure) or it returned a value.
\<close>

datatype 'a outcome = Raised | Returned 'a

text \<open>
  \<^verbatim>\<open>
  class StatusCheck:
      def check(self):
          value = self.do_check()
          return value, [self.do_to_value(value)]
  \<close>
\<close>

definition StatusCheck_check ::
  "('s \<Rightarrow> string \<times> 's) \<Rightarrow> (string \<Rightarrow> verdict) \<Rightarrow> 's \<Rightarrow> check_result \<times> 's" where
  "StatusCheck_check do_check do_to_value s =
     (let (value_string, s') = do_check s
      in ((value_string, [do_to_value value_string]), s'))"

text \<open>
  \<^verbatim>\<open>
  class DnsCheck(StatusCheck):
      def do_to_value(self, value_string):
          bool(value_string)
      def do_check(self):
          try:
              dns_resolve(self.host, timeout=self.timeout)
              return "True"
          except Exception as e:
              logger.error(...)
              return "False"
  \<close>
  \<open>do_to_value\<close> evaluates \<open>bool(value_string)\<close> and drops it: a Python function that
  ends without \<open>return\<close> returns \<open>None\<close>. \<open>dns_resolve\<close> is the resolver library behind
  the check; it is a parameter.
\<close>

definition DnsCheck_do_to_value :: "string \<Rightarrow> verdict" where
  "DnsCheck_do_to_value value_string = None"

definition DnsCheck_do_check ::
  "(string \<Rightarrow> real \<Rightarrow> 's \<Rightarrow> string outcome \<times> 's) \<Rightarrow> string \<Rightarrow> real \<Rightarrow> 's \<Rightarrow> string \<times> 's" where
  "DnsCheck_do_check dns_resolve host timeout s =
     (case dns_resolve host timeout s of
        (Returned ipv4, s') \<Rightarrow> (''True'', s')
      | (Raised, s') \<Rightarrow> (''False'', s'))"

definition DnsCheck ::
  "(string \<Rightarrow> real \<Rightarrow> 's \<Rightarrow> string outcome \<times> 's) \<Rightarrow> string \<Rightarrow> real \<Rightarrow> 's StatusCheck" where
  "DnsCheck dns_resolve host timeout =
     \<lparr> check = StatusCheck_check (DnsCheck_do_check dns_resolve host timeout) DnsCheck_do_to_value,
       column_names = ''DNS resolution check for '' @ host,
       num_columns = 1 \<rparr>"

text \<open>
  \<^verbatim>\<open>
  def combine_checks(array_of_tuples):
      result_strings = [r[0] for r in array_of_tuples]
      result_arrays = [r[1] for r in array_of_tuples]
      result_string = ','.join(result_strings)
      result_array = [element for inner_array in result_arrays for element in inner_array]
      return result_string, result_array
  \<close>
\<close>

definition combine_checks :: "check_result list \<Rightarrow> check_result" where
  "combine_checks array_of_tuples =
     (let result_strings = map fst array_of_tuples;
          result_arrays = map snd array_of_tuples;
          result_string = str_join '','' result_strings;
          result_array = concat result_arrays
      in (result_string, result_array))"

text \<open>\<open>[check.check() for check in self.checks]\<close>: the checks run in the order of the list.\<close>

fun run_checks :: "'s StatusCheck list \<Rightarrow> 's \<Rightarrow> check_result list \<times> 's" where
  "run_checks [] s = ([], s)"
| "run_checks (c # cs) s =
     (let (r, s1) = check c s;
          (rs, s2) = run_checks cs s1
      in (r # rs, s2))"

definition MultipleChecks :: "'s StatusCheck list \<Rightarrow> 's StatusCheck" where
  "MultipleChecks checks =
     \<lparr> check = (\<lambda>s. let (results, s') = run_checks checks s in (combine_checks results, s')),
       column_names = str_join '','' (map column_names checks),
       num_columns = sum_list (map num_columns checks) \<rparr>"

subsection \<open>Observers and the two kinds of test\<close>

datatype TestType = NORMAL | EXTENDED

record 's TestObserver =
  notify_test_started :: "TestType \<Rightarrow> 's \<Rightarrow> 's"
  notify_test_completed :: "TestType \<Rightarrow> verdict \<Rightarrow> 's \<Rightarrow> 's"

record 's NormalAndExtendedChecks =
  normal_checks :: "'s StatusCheck"
  extended_checks :: "'s StatusCheck"
  test_observers :: "'s TestObserver list"

text \<open>
  \<^verbatim>\<open>
  def normal_check(self):
      skip_extended = (','.join([""] * self.extended_checks.num_columns()))
      for observer in self.test_observers:
          observer.notify_test_started(TestObserver.TestType.NORMAL)
      results = self.normal_checks.check()
      normal_tests_result = functools.reduce(combine_results, results[1], None)
      for observer in self.test_observers:
          observer.notify_test_completed(TestObserver.TestType.NORMAL, normal_tests_result)
      return results[0] + "," + skip_extended
  \<close>
\<close>

definition normal_check :: "'s NormalAndExtendedChecks \<Rightarrow> 's \<Rightarrow> string \<times> 's" where
  "normal_check self s0 =
     (let skip_extended = str_join '','' (replicate (num_columns (extended_checks self)) '''');
          s1 = fold (\<lambda>observer. notify_test_started observer NORMAL) (test_observers self) s0;
          (results, s2) = check (normal_checks self) s1;
          normal_tests_result = reduce_results (snd results);
          s3 = fold (\<lambda>observer. notify_test_completed observer NORMAL normal_tests_result)
                 (test_observers self) s2
      in (fst results @ '','' @ skip_extended, s3))"

text \<open>
  \<^verbatim>\<open>
  def extended_check(self):
      normal_results = self.normal_checks.check()
      for observer in self.test_observers:
          observer.notify_test_started(TestObserver.TestType.NORMAL)
          observer.notify_test_started(TestObserver.TestType.EXTENDED)
      normal_tests_result = functools.reduce(combine_results, normal_results[1], None)
      extended_results = self.extended_checks.check()
      extended_tests_result = functools.reduce(combine_results, extended_results[1], None)
      for observer in self.test_observers:
          observer.notify_test_completed(TestObserver.TestType.NORMAL, normal_tests_result)
          observer.notify_test_completed(TestObserver.TestType.EXTENDED, extended_tests_result)
      return normal_results[0] + "," + extended_results[0]
  \<close>
\<close>

definition extended_check :: "'s NormalAndExtendedChecks \<Rightarrow> 's \<Rightarrow> string \<times> 's" where
  "extended_check self s0 =
     (let (normal_results, s1) = check (normal_checks self) s0;
          s2 = fold (\<lambda>observer s. notify_test_started observer EXTENDED
                                     (notify_test_started observer NORMAL s))
                 (test_observers self) s1;
          normal_tests_result = reduce_results (snd normal_results);
          (extended_results, s3) = check (extended_checks self) s2;
          extended_tests_result = reduce_results (snd extended_results);
          s4 = fold (\<lambda>observer s. notify_test_completed observer EXTENDED extended_tests_result
                                     (notify_test_completed observer NORMAL normal_tests_result s))
                 (test_observers self) s3
      in (fst normal_results @ '','' @ fst extended_results, s4))"

text \<open>The methods \<open>column_names\<close> and \<open>num_columns\<close> of \<open>NormalAndExtendedChecks\<close>.\<close>

definition checks_column_names :: "'s NormalAndExtendedChecks \<Rightarrow> string" where
  "checks_column_names self =
     column_names (normal_checks self) @ '','' @ column_names (extended_checks self)"

definition checks_num_columns :: "'s NormalAndExtendedChecks \<Rightarrow> nat" where
  "checks_num_columns self = num_columns (normal_checks self) + num_columns (extended_checks self)"

section \<open>hardware.py: the LEDs and the button\<close>

datatype Leds = NORMAL_PASS | NORMAL_FAIL | EXTENDED_PASS | EXTENDED_FAIL | TEST_RUNNING

datatype UserInput = NO_INPUT | NORMAL_TEST | EXTENDED_TEST

text \<open>
  \<open>Hardware.TestState\<close>. The two results start as \<open>True\<close> and are later overwritten by
  the \<open>result\<close> argument of \<open>notify_test_completed\<close>, which \<open>NormalAndExtendedChecks\<close>
  computes with \<open>functools.reduce(combine_results, ..., None)\<close>: a verdict, \<open>None\<close>
  included. Times are seconds since the epoch: the integer \<open>0\<close> at first, later the
  floating point numbers of \<open>time.time()\<close>. A number is modelled by the real it
  denotes; the sums and products that the code forms of them are rounded as the floating
  point arithmetic rounds them (\<open>float_add\<close> and \<open>float_mul\<close> below).
\<close>

record TestState =
  normal_test_result :: verdict
  extended_test_result :: verdict
  scheduled_normal_test :: bool
  scheduled_extended_test :: bool
  last_normal_test_failure_time :: real
  last_extended_test_failure_time :: real
  normal_test_running :: bool
  extended_test_running :: bool
  last_normal_test_started_time :: real
  last_extended_test_started_time :: real

definition TestState_init :: TestState where
  "TestState_init =
     \<lparr> normal_test_result = Some True,
       extended_test_result = Some True,
       scheduled_normal_test = True,
       scheduled_extended_test = True,
       last_normal_test_failure_time = 0,
       last_extended_test_failure_time = 0,
       normal_test_running = False,
       extended_test_running = False,
       last_normal_test_started_time = 0,
       last_extended_test_started_time = 0 \<rparr>"

text \<open>
  The state of a \<open>Hardware\<close> object together with the world it talks to:
  \<^item> \<open>clock\<close>: the values the coming calls of \<open>time.time()\<close> return, in order;
  \<^item> \<open>run_test_button\<close>: the values the coming calls of
    \<open>GPIO.input(Buttons.RUN_TEST.value)\<close> return, in order;
  \<^item> \<open>test_state\<close>: the \<open>TestState\<close> object;
  \<^item> \<open>leds\<close>: for every LED, the last value handed to \<open>GPIO.output\<close>. The value is the
    Python value of the expression in the call, which is \<open>True\<close>, \<open>False\<close> or \<open>None\<close>.
  All functions work on any extension of the record, so that the checks can keep their own
  state beside it. The two locks have no effect in one thread and are left out there:
  \<open>test_state_lock\<close> is held around every write of the \<open>TestState\<close> object,
  \<open>led_lock\<close> around the five calls of \<open>GPIO.output\<close> of a refresh.
\<close>

record Hardware =
  clock :: "real stream"
  run_test_button :: "bool stream"
  test_state :: TestState
  leds :: "Leds \<Rightarrow> bool option"

definition time_time :: "'a Hardware_scheme \<Rightarrow> real \<times> 'a Hardware_scheme" where
  "time_time hw = (shd (clock hw), hw\<lparr>clock := stl (clock hw)\<rparr>)"

definition GPIO_input :: "'a Hardware_scheme \<Rightarrow> bool \<times> 'a Hardware_scheme" where
  "GPIO_input hw = (shd (run_test_button hw), hw\<lparr>run_test_button := stl (run_test_button hw)\<rparr>)"

definition GPIO_output :: "Leds \<Rightarrow> bool option \<Rightarrow> 'a Hardware_scheme \<Rightarrow> 'a Hardware_scheme" where
  "GPIO_output led val hw = hw\<lparr>leds := (leds hw)(led := val)\<rparr>"

text \<open>
  \<open>time.sleep(seconds)\<close>: the time that passes shows in the next values of the clock and
  nowhere else.
\<close>

definition time_sleep :: "real \<Rightarrow> 'a Hardware_scheme \<Rightarrow> 'a Hardware_scheme" where
  "time_sleep seconds hw = hw"

text \<open>
  Python's truth value of \<open>True\<close>, \<open>False\<close> and \<open>None\<close>, and its \<open>and\<close> and \<open>not\<close> on
  them: \<open>x and y\<close> is \<open>y\<close> when \<open>x\<close> is truthy and \<open>x\<close> otherwise, \<open>not x\<close> is a \<open>bool\<close>.
\<close>

definition truthy :: "bool option \<Rightarrow> bool" where
  "truthy v = (v = Some True)"

definition py_and :: "bool option \<Rightarrow> bool option \<Rightarrow> bool option" where
  "py_and x y = (if truthy x then y else x)"

definition py_not :: "bool option \<Rightarrow> bool option" where
  "py_not x = Some (\<not> truthy x)"

text \<open>
  Python 3's \<open>round(x)\<close> of a float: the nearest integer, a tie going to the even one.
\<close>

definition py_round :: "real \<Rightarrow> int" where
  "py_round x =
     (let f = \<lfloor>x\<rfloor>; d = x - of_int f
      in if d < 1 / 2 then f
         else if 1 / 2 < d then f + 1
         else if even f then f else f + 1)"

text \<open>
  Python's \<open>float\<close> is the IEEE 754 binary64 format and its \<open>+\<close> and \<open>*\<close> round the exact
  result to the nearest number of the format, a tie going to the one with the even
  mantissa. The numbers of the format are the multiples of \<open>2 ^ -1074\<close> below
  \<open>2 ^ -1021\<close> in magnitude and, above, the numbers with a mantissa of 53 bits.
  \<open>float_round x\<close> is the number of the format nearest to \<open>x\<close>: in units of
  \<open>2 ^ -1074\<close>, \<open>x\<close> is rounded to a multiple of the power of two \<open>q\<close> that leaves
  53 bits. Results of magnitude \<open>2 ^ 1024\<close> and more, which the format turns into an
  infinity, are kept as they are; no time of the clock comes near them. An operand that is
  an \<open>int\<close> is converted first, which changes nothing for the integers below \<open>2 ^ 53\<close>
  that the program uses.
\<close>

definition subnormal_exponent :: nat where
  "subnormal_exponent = 1074"

definition float_round :: "real \<Rightarrow> real" where
  "float_round x =
     (let m = x * 2 ^ subnormal_exponent;
          q = 2 ^ nat (bitlen \<lfloor>\<bar>m\<bar>\<rfloor> - 53)
      in of_int (py_round (m / q)) * q / 2 ^ subnormal_exponent)"

definition float_add :: "real \<Rightarrow> real \<Rightarrow> real" where
  "float_add a b = float_round (a + b)"

definition float_mul :: "real \<Rightarrow> real \<Rightarrow> real" where
  "float_mul a b = float_round (a * b)"

text \<open>
  \<open>Hardware.__init__\<close>: a new \<open>TestState\<close>; every LED is driven off, on for a second, and
  off again.
\<close>

definition Hardware_init :: "'a Hardware_scheme \<Rightarrow> 'a Hardware_scheme" where
  "Hardware_init world = world\<lparr>test_state := TestState_init, leds := (\<lambda>led. Some False)\<rparr>"

text \<open>
  \<^verbatim>\<open>
  def __get_blink_state(last_failure_time):
      current_time = time.time()
      hour = 60 * 60
      day = 24 * hour
      week = 7 * day
      if last_failure_time + hour >= current_time:
          return round(current_time * 10) % 2 > 0
      elif last_failure_time + day >= current_time:
          return round(current_time) % 2 > 0
      elif last_failure_time + week >= current_time:
          return round(current_time * 10) % 20 > 0
      else:
          return True
  \<close>
  \<open>blink_state_at\<close> is the body after the first line, \<open>get_blink_state\<close> the whole.
  \<open>hour\<close>, \<open>day\<close> and \<open>week\<close> are integers; the three sums and the two products are
  floating point operations, and \<open>round\<close> is applied to the rounded product.
\<close>

definition blink_state_at :: "real \<Rightarrow> real \<Rightarrow> bool" where
  "blink_state_at current_time last_failure_time =
     (let hour = 60 * 60;
          day = 24 * hour;
          week = 7 * day
      in if float_add last_failure_time hour \<ge> current_time
         then py_round (float_mul current_time 10) mod 2 > 0
         else if float_add last_failure_time day \<ge> current_time
         then py_round current_time mod 2 > 0
         else if float_add last_failure_time week \<ge> current_time
         then py_round (float_mul current_time 10) mod 20 > 0
         else True)"

definition get_blink_state :: "real \<Rightarrow> 'a Hardware_scheme \<Rightarrow> bool \<times> 'a Hardware_scheme" where
  "get_blink_state last_failure_time hw =
     (let (current_time, hw') = time_time hw
      in (blink_state_at current_time last_failure_time, hw'))"

text \<open>
  \<open>Hardware.__update_leds\<close>. In one thread the object \<open>test_state\<close> names under the lock
  and the fields read from it afterwards belong to the same state.
\<close>

definition update_leds :: "'a Hardware_scheme \<Rightarrow> 'a Hardware_scheme" where
  "update_leds hw0 =
     (let (current_time, hw1) = time_time hw0;
          min_test_running_led_time = 1;
          ts = test_state hw1;
          (normal_blink_state, hw2) = get_blink_state (last_normal_test_failure_time ts) hw1;
          (extended_blink_state, hw3) = get_blink_state (last_extended_test_failure_time ts) hw2;
          hw4 = GPIO_output NORMAL_PASS
                  (py_and (Some normal_blink_state)
                     (py_and (normal_test_result ts) (Some (\<not> scheduled_normal_test ts)))) hw3;
          hw5 = GPIO_output NORMAL_FAIL
                  (py_and (py_not (normal_test_result ts)) (Some (\<not> scheduled_normal_test ts))) hw4;
          hw6 = GPIO_output EXTENDED_PASS
                  (py_and (Some extended_blink_state)
                     (py_and (extended_test_result ts) (Some (\<not> scheduled_extended_test ts)))) hw5;
          hw7 = GPIO_output EXTENDED_FAIL
                  (py_and (py_not (extended_test_result ts)) (Some (\<not> scheduled_extended_test ts))) hw6;
          hw8 = GPIO_output TEST_RUNNING
                  (Some (normal_test_running ts \<or>
                         extended_test_running ts \<or>
                         float_add (last_normal_test_started_time ts) min_test_running_led_time
                           \<ge> current_time \<or>
                         float_add (last_extended_test_started_time ts) min_test_running_led_time
                           \<ge> current_time))
                  hw7
      in hw8)"

text \<open>\<open>Hardware.update\<close>, the entry of the background thread.\<close>

definition update :: "'a Hardware_scheme \<Rightarrow> 'a Hardware_scheme" where
  "update hw = update_leds hw"

text \<open>
  \<^verbatim>\<open>
  def notify_test_started(self, test_type):
      if test_type == TestObserver.TestType.NORMAL:
          self.test_state.normal_test_running = True
          self.test_state.last_normal_test_started_time = time.time()
      if test_type == TestObserver.TestType.EXTENDED:
          self.test_state.extended_test_running = True
          self.test_state.last_extended_test_started_time = time.time()
      self.__update_leds()
  \<close>
\<close>

definition Hardware_notify_test_started :: "TestType \<Rightarrow> 'a Hardware_scheme \<Rightarrow> 'a Hardware_scheme" where
  "Hardware_notify_test_started test_type hw =
     (let hw2 =
        (case test_type of
           NORMAL \<Rightarrow>
             (let (now, hw1) = time_time hw
              in hw1\<lparr>test_state := (test_state hw1)
                       \<lparr>normal_test_running := True, last_normal_test_started_time := now\<rparr>\<rparr>)
         | EXTENDED \<Rightarrow>
             (let (now, hw1) = time_time hw
              in hw1\<lparr>test_state := (test_state hw1)
                       \<lparr>extended_test_running := True, last_extended_test_started_time := now\<rparr>\<rparr>))
      in update_leds hw2)"

text \<open>
  \<^verbatim>\<open>
  def notify_test_completed(self, test_type, result):
      if test_type == TestObserver.TestType.NORMAL:
          self.test_state.normal_test_result = result
          self.test_state.normal_test_running = False
          self.test_state.scheduled_normal_test = False
          if not result:
              self.test_state.last_normal_test_failure_time = time.time()
      elif test_type == TestObserver.TestType.EXTENDED:
          (the same on the fields of the extended test)
      self.__update_leds()
  \<close>
  The clock is read only when \<open>result\<close> is not truthy.
\<close>

definition Hardware_notify_test_completed ::
  "TestType \<Rightarrow> verdict \<Rightarrow> 'a Hardware_scheme \<Rightarrow> 'a Hardware_scheme" where
  "Hardware_notify_test_completed test_type result hw =
     (let hw3 =
        (case test_type of
           NORMAL \<Rightarrow>
             (let hw1 = hw\<lparr>test_state := (test_state hw)
                            \<lparr>normal_test_result := result,
                             normal_test_running := False,
                             scheduled_normal_test := False\<rparr>\<rparr>
              in if \<not> truthy result
                 then (let (now, hw2) = time_time hw1
                       in hw2\<lparr>test_state := (test_state hw2)\<lparr>last_normal_test_failure_time := now\<rparr>\<rparr>)
                 else hw1)
         | EXTENDED \<Rightarrow>
             (let hw1 = hw\<lparr>test_state := (test_state hw)
                            \<lparr>extended_test_result := result,
                             extended_test_running := False,
                             scheduled_extended_test := False\<rparr>\<rparr>
              in if \<not> truthy result
                 then (let (now, hw2) = time_time hw1
                       in hw2\<lparr>test_state := (test_state hw2)\<lparr>last_extended_test_failure_time := now\<rparr>\<rparr>)
                 else hw1))
      in update_leds hw3)"

text \<open>The \<open>Hardware\<close> object as the observer that \<open>main\<close> registers.\<close>

definition Hardware_observer :: "'a Hardware_scheme TestObserver" where
  "Hardware_observer =
     \<lparr> notify_test_started = Hardware_notify_test_started,
       notify_test_completed = Hardware_notify_test_completed \<rparr>"

text \<open>
  \<^verbatim>\<open>
  def get_user_input(self, timeout):
      sleep_time = 0.1
      button_push_time_for_extended_test = 3
      timeout_time = time.time() + timeout
      user_input_time = None
      while True:
          if user_input_time is None and GPIO.input(self.Buttons.RUN_TEST.value):
              user_input_time = time.time()
              self.test_state.scheduled_normal_test = True    (under test_state_lock)
              self.__update_leds()
          elif user_input_time is not None and not GPIO.input(self.Buttons.RUN_TEST.value):
              return self.UserInput.NORMAL_TEST
          elif user_input_time is not None and time.time() >= user_input_time + button_push_time_for_extended_test:
              self.test_state.scheduled_extended_test = True  (under test_state_lock)
              self.__update_leds()
              return self.UserInput.EXTENDED_TEST
          elif user_input_time is None and time.time() >= timeout_time:
              return self.UserInput.NO_INPUT
          else:
              time.sleep(sleep_time)
  \<close>
  \<open>get_user_input_round\<close> is one round of the \<open>while True\<close>: it returns from the
  function, or it goes on to the next round with the new \<open>user_input_time\<close>. The conditions
  are evaluated from left to right and only as far as needed: a round reads the button once,
  and the clock once unless the button was released after a push. After the initial push
  the next round starts without sleeping. \<open>get_user_input_loop\<close> repeats the rounds; a run
  that never returns has the value \<open>None\<close>. The literal \<open>0.1\<close> is the floating point
  number nearest to a tenth, and the two sums are floating point sums.
\<close>

definition sleep_time :: real where
  "sleep_time = float_round 0.1"

definition button_push_time_for_extended_test :: real where
  "button_push_time_for_extended_test = 3"

datatype 'h round = Return UserInput 'h | Continue "real option" 'h

definition get_user_input_round ::
  "real \<Rightarrow> real option \<Rightarrow> 'a Hardware_scheme \<Rightarrow> 'a Hardware_scheme round" where
  "get_user_input_round timeout_time user_input_time hw =
     (case user_input_time of
        None \<Rightarrow>
          (let (pressed, hw1) = GPIO_input hw
           in if pressed
              then (let (now, hw2) = time_time hw1;
                        hw3 = hw2\<lparr>test_state := (test_state hw2)\<lparr>scheduled_normal_test := True\<rparr>\<rparr>
                    in Continue (Some now) (update_leds hw3))
              else (let (now, hw2) = time_time hw1
                    in if now \<ge> timeout_time then Return NO_INPUT hw2
                       else Continue None (time_sleep sleep_time hw2)))
      | Some pushed \<Rightarrow>
          (let (pressed, hw1) = GPIO_input hw
           in if \<not> pressed then Return NORMAL_TEST hw1
              else (let (now, hw2) = time_time hw1
                    in if now \<ge> float_add pushed button_push_time_for_extended_test
                       then (let hw3 = hw2\<lparr>test_state := (test_state hw2)
                                             \<lparr>scheduled_extended_test := True\<rparr>\<rparr>
                             in Return EXTENDED_TEST (update_leds hw3))
                       else Continue (Some pushed) (time_sleep sleep_time hw2))))"

partial_function (option) get_user_input_loop ::
  "real \<Rightarrow> real option \<Rightarrow> 'a Hardware_scheme \<Rightarrow> (UserInput \<times> 'a Hardware_scheme) option" where
  "get_user_input_loop timeout_time user_input_time hw =
     (case get_user_input_round timeout_time user_input_time hw of
        Return user_input hw' \<Rightarrow> Some (user_input, hw')
      | Continue user_input_time' hw' \<Rightarrow> get_user_input_loop timeout_time user_input_time' hw')"

definition get_user_input ::
  "real \<Rightarrow> 'a Hardware_scheme \<Rightarrow> (UserInput \<times> 'a Hardware_scheme) option" where
  "get_user_input timeout hw =
     (let (now, hw1) = time_time hw;
          timeout_time = float_add now timeout
      in get_user_input_loop timeout_time None hw1)"

subsection \<open>The refresh beside another thread\<close>

text \<open>
  \<open>update\<close> runs in the background thread while the checks and the button run in the
  main thread. Under the lock \<open>__update_leds\<close> only binds a name to the one shared
  object:
  \<^verbatim>\<open>
  self.test_state_lock.acquire()
  try:
      test_state = self.test_state
  finally:
      self.test_state_lock.release()
  \<close>
  The seven statements after it read the fields of that object when they run, without the
  lock, and a notification of the other thread that takes the lock in between changes
  what the later statements read. \<open>shared i\<close> is the content of the object when
  statement \<open>i\<close> reads it: the two calls of \<open>__get_blink_state\<close> are statements 0 and 1,
  the five calls of \<open>GPIO.output\<close> statements 2 to 6. With the same content for every
  statement this is \<open>update_leds\<close>.
\<close>

definition update_leds_shared :: "(nat \<Rightarrow> TestState) \<Rightarrow> 'a Hardware_scheme \<Rightarrow> 'a Hardware_scheme" where
  "update_leds_shared shared hw0 =
     (let (current_time, hw1) = time_time hw0;
          min_test_running_led_time = 1;
          (normal_blink_state, hw2) = get_blink_state (last_normal_test_failure_time (shared 0)) hw1;
          (extended_blink_state, hw3) = get_blink_state (last_extended_test_failure_time (shared 1)) hw2;
          hw4 = GPIO_output NORMAL_PASS
                  (py_and (Some normal_blink_state)
                     (py_and (normal_test_result (shared 2))
                        (Some (\<not> scheduled_normal_test (shared 2))))) hw3;
          hw5 = GPIO_output NORMAL_FAIL
                  (py_and (py_not (normal_test_result (shared 3)))
                     (Some (\<not> scheduled_normal_test (shared 3)))) hw4;
          hw6 = GPIO_output EXTENDED_PASS
                  (py_and (Some extended_blink_state)
                     (py_and (extended_test_result (shared 4))
                        (Some (\<not> scheduled_extended_test (shared 4))))) hw5;
          hw7 = GPIO_output EXTENDED_FAIL
                  (py_and (py_not (extended_test_result (shared 5)))
                     (Some (\<not> scheduled_extended_test (shared 5)))) hw6;
          hw8 = GPIO_output TEST_RUNNING
                  (Some (normal_test_running (shared 6) \<or>
                         extended_test_running (shared 6) \<or>
                         float_add (last_normal_test_started_time (shared 6)) min_test_running_led_time
                           \<ge> current_time \<or>
                         float_add (last_extended_test_started_time (shared 6)) min_test_running_led_time
                           \<ge> current_time))
                  hw7
      in hw8\<lparr>test_state := shared 6\<rparr>)"

text \<open>
  A statement that names two fields reads them one after the other, and the notification
  can also run between the two readings. \<open>reads i\<close> is the content of the object when
  field number \<open>i\<close> is read, in the order of the source:
  \<^item> 0 and 1: \<open>last_normal_test_failure_time\<close> and \<open>last_extended_test_failure_time\<close>, the
    arguments of the two calls of \<open>__get_blink_state\<close>;
  \<^item> 2 and 3: \<open>normal_test_result\<close> and \<open>scheduled_normal_test\<close> for \<open>NORMAL_PASS\<close>;
  \<^item> 4 and 5: the same two fields for \<open>NORMAL_FAIL\<close>;
  \<^item> 6 and 7: \<open>extended_test_result\<close> and \<open>scheduled_extended_test\<close> for \<open>EXTENDED_PASS\<close>;
  \<^item> 8 and 9: the same two fields for \<open>EXTENDED_FAIL\<close>;
  \<^item> 10 to 13: \<open>normal_test_running\<close>, \<open>extended_test_running\<close>,
    \<open>last_normal_test_started_time\<close> and \<open>last_extended_test_started_time\<close> for
    \<open>TEST_RUNNING\<close>.
  \<open>and\<close> and \<open>or\<close> do not read the fields they do not need; the value of the
  expression is the one of \<open>py_and\<close> and of the disjunction on all of them.
  \<open>statement_of i\<close> is the statement of \<open>update_leds_shared\<close> that makes reading \<open>i\<close>.
\<close>

definition update_leds_reads :: "(nat \<Rightarrow> TestState) \<Rightarrow> 'a Hardware_scheme \<Rightarrow> 'a Hardware_scheme" where
  "update_leds_reads reads hw0 =
     (let (current_time, hw1) = time_time hw0;
          min_test_running_led_time = 1;
          (normal_blink_state, hw2) = get_blink_state (last_normal_test_failure_time (reads 0)) hw1;
          (extended_blink_state, hw3) = get_blink_state (last_extended_test_failure_time (reads 1)) hw2;
          hw4 = GPIO_output NORMAL_PASS
                  (py_and (Some normal_blink_state)
                     (py_and (normal_test_result (reads 2))
                        (Some (\<not> scheduled_normal_test (reads 3))))) hw3;
          hw5 = GPIO_output NORMAL_FAIL
                  (py_and (py_not (normal_test_result (reads 4)))
                     (Some (\<not> scheduled_normal_test (reads 5)))) hw4;
          hw6 = GPIO_output EXTENDED_PASS
                  (py_and (Some extended_blink_state)
                     (py_and (extended_test_result (reads 6))
                        (Some (\<not> scheduled_extended_test (reads 7))))) hw5;
          hw7 = GPIO_output EXTENDED_FAIL
                  (py_and (py_not (extended_test_result (reads 8)))
                     (Some (\<not> scheduled_extended_test (reads 9)))) hw6;
          hw8 = GPIO_output TEST_RUNNING
                  (Some (normal_test_running (reads 10) \<or>
                         extended_test_running (reads 11) \<or>
                         float_add (last_normal_test_started_time (reads 12)) min_test_running_led_time
                           \<ge> current_time \<or>
                         float_add (last_extended_test_started_time (reads 13)) min_test_running_led_time
                           \<ge> current_time))
                  hw7
      in hw8\<lparr>test_state := reads 13\<rparr>)"

definition statement_of :: "nat \<Rightarrow> nat" where
  "statement_of i =
     (if i < 2 then i
      else if i < 4 then 2
      else if i < 6 then 3
      else if i < 8 then 4
      else if i < 10 then 5
      else 6)"

section \<open>network-status-main.py: the outer loop\<close>

text \<open>
  The variables of \<open>main\<close> and what it exchanges with the outside:
  \<^item> \<open>utc_now\<close>: the strings the coming evaluations of
    \<open>datetime.datetime.now(datetime.timezone.utc).strftime("%Y-%m-%dT%H:%M:%SZ")\<close>
    return, in order;
  \<^item> \<open>stdout\<close>: the lines printed so far, the oldest first.
\<close>

record main_state =
  last_normal_test :: real
  last_extended_test :: real
  utc_now :: "string stream"
  stdout :: "string list"

definition strftime_utc_now :: "main_state \<Rightarrow> string \<times> main_state" where
  "strftime_utc_now m = (shd (utc_now m), m\<lparr>utc_now := stl (utc_now m)\<rparr>)"

definition print :: "string \<Rightarrow> main_state \<Rightarrow> main_state" where
  "print line m = m\<lparr>stdout := stdout m @ [line]\<rparr>"

definition user_input_timeout :: real where
  "user_input_timeout = 1"

definition normal_test_interval :: real where
  "normal_test_interval = 60"

definition extended_test_interval :: real where
  "extended_test_interval = 60 * 60"

text \<open>
  \<open>checks = networkstatus.NormalAndExtendedChecks(quick_checks, extended_checks, [hardware])\<close>.
  The leaf checks inside \<open>quick_checks\<close> and \<open>extended_checks\<close> call external programs and
  libraries; the two composites are parameters.
\<close>

definition main_checks ::
  "'a Hardware_scheme StatusCheck \<Rightarrow> 'a Hardware_scheme StatusCheck \<Rightarrow>
   'a Hardware_scheme NormalAndExtendedChecks" where
  "main_checks quick_checks extended_checks' =
     \<lparr> normal_checks = quick_checks,
       extended_checks = extended_checks',
       test_observers = [Hardware_observer] \<rparr>"

text \<open>
  One round of the \<open>while True\<close> of \<open>main\<close>:
  \<^verbatim>\<open>
  current_time = time.time()
  if (current_time >= last_normal_test + normal_test_interval or
     current_time >= last_extended_test + extended_test_interval):
      last_normal_test = current_time
      time_str = datetime.datetime.now(datetime.timezone.utc).strftime("%Y-%m-%dT%H:%M:%SZ")
      if current_time >= last_extended_test + extended_test_interval:
          print('# time(utc),{}'.format(checks.column_names()))
          last_extended_test = current_time
          result_str = checks.extended_check()
      else:
          result_str = checks.normal_check()
      print('{},{}'.format(time_str, result_str), flush=True)
  user_input = hardware.get_user_input(user_input_timeout)
  if user_input == hardware.UserInput.NORMAL_TEST:
      last_normal_test = 0
  elif user_input == hardware.UserInput.EXTENDED_TEST:
      last_normal_test = 0
      last_extended_test = 0
  \<close>
  The round has no value when \<open>get_user_input\<close> does not return. The background thread
  that \<open>main\<close> starts to call \<open>hardware.update()\<close> every 0.1 s is not part of the
  rounds; it writes to the LEDs only. \<open>last_normal_test\<close> and \<open>last_extended_test\<close>
  are the integer \<open>0\<close> or a time of the clock, and the sums with the intervals are
  floating point sums (the sum of the integers \<open>0\<close> and \<open>60\<close> or \<open>3600\<close> is exact, and so is
  \<open>float_add\<close> on them).
\<close>

definition run_tests ::
  "'a Hardware_scheme NormalAndExtendedChecks \<Rightarrow> main_state \<times> 'a Hardware_scheme \<Rightarrow>
   main_state \<times> 'a Hardware_scheme" where
  "run_tests checks st =
     (case st of
        (m, hw) \<Rightarrow>
          (let (current_time, hw1) = time_time hw
           in if current_time \<ge> float_add (last_normal_test m) normal_test_interval \<or>
                 current_time \<ge> float_add (last_extended_test m) extended_test_interval
              then (let m1 = m\<lparr>last_normal_test := current_time\<rparr>;
                        (time_str, m2) = strftime_utc_now m1
                    in if current_time \<ge> float_add (last_extended_test m2) extended_test_interval
                       then (let m3 = print (''# time(utc),'' @ checks_column_names checks) m2;
                                 m4 = m3\<lparr>last_extended_test := current_time\<rparr>;
                                 (result_str, hw2) = extended_check checks hw1
                             in (print (time_str @ '','' @ result_str) m4, hw2))
                       else (let (result_str, hw2) = normal_check checks hw1
                             in (print (time_str @ '','' @ result_str) m2, hw2)))
              else (m, hw1)))"

definition main_cycle ::
  "'a Hardware_scheme NormalAndExtendedChecks \<Rightarrow> main_state \<times> 'a Hardware_scheme \<Rightarrow>
   (main_state \<times> 'a Hardware_scheme) option" where
  "main_cycle checks st =
     (case run_tests checks st of
        (m, hw) \<Rightarrow>
          (case get_user_input user_input_timeout hw of
             None \<Rightarrow> None
           | Some (user_input, hw') \<Rightarrow>
               Some (case user_input of
                       NORMAL_TEST \<Rightarrow> m\<lparr>last_normal_test := 0\<rparr>
                     | EXTENDED_TEST \<Rightarrow> m\<lparr>last_normal_test := 0, last_extended_test := 0\<rparr>
                     | NO_INPUT \<Rightarrow> m,
                     hw')))"

text \<open>
  The loop never ends; \<open>main_cycles checks n\<close> is the state after \<open>n\<close> complete rounds.
\<close>

fun main_cycles ::
  "'a Hardware_scheme NormalAndExtendedChecks \<Rightarrow> nat \<Rightarrow> main_state \<times> 'a Hardware_scheme \<Rightarrow>
   (main_state \<times> 'a Hardware_scheme) option" where
  "main_cycles checks 0 st = Some st"
| "main_cycles checks (Suc n) st =
     (case main_cycle checks st of
        None \<Rightarrow> None
      | Some st' \<Rightarrow> main_cycles checks n st')"

text \<open>
  \<open>main\<close> up to the end of round \<open>n\<close>: the \<open>Hardware\<close> object is created in the given world
  and both tests are due at once.
\<close>

definition main ::
  "'a Hardware_scheme StatusCheck \<Rightarrow> 'a Hardware_scheme StatusCheck \<Rightarrow> nat \<Rightarrow>
   string stream \<Rightarrow> 'a Hardware_scheme \<Rightarrow> (main_state \<times> 'a Hardware_scheme) option" where
  "main quick_checks extended_checks' n utc world =
     main_cycles (main_checks quick_checks extended_checks') n
       (\<lparr> last_normal_test = 0, last_extended_test = 0, utc_now = utc, stdout = [] \<rparr>,
        Hardware_init world)"

section \<open>The wording of the specification, for comparison\<close>

text \<open>
  The blink regime as the specification words it: a function of the time since the last
  failure, with strict bounds, in the arithmetic of the real numbers.
\<close>

definition spec_blink_state :: "real \<Rightarrow> real \<Rightarrow> bool" where
  "spec_blink_state now last_failure_time =
     (let elapsed = now - last_failure_time
      in if elapsed < 60 * 60 then py_round (now * 10) mod 2 \<noteq> 0
         else if elapsed < 24 * (60 * 60) then py_round now mod 2 \<noteq> 0
         else if elapsed < 7 * (24 * (60 * 60)) then py_round (now * 10) mod 20 \<noteq> 0
         else True)"

section \<open>Calls and scenarios\<close>

text \<open>
  The states of a \<open>Hardware\<close> object are those its methods produce from the constructor.
  These are the methods that the rest of the program calls, and \<open>do_calls\<close> runs a
  sequence of them; it has no value when a \<open>get_user_input\<close> among them does not return.
\<close>

datatype call =
  Update
| NotifyTestStarted TestType
| NotifyTestCompleted TestType verdict
| GetUserInput real

definition do_call :: "call \<Rightarrow> 'a Hardware_scheme \<Rightarrow> 'a Hardware_scheme option" where
  "do_call c hw =
     (case c of
        Update \<Rightarrow> Some (update hw)
      | NotifyTestStarted test_type \<Rightarrow> Some (Hardware_notify_test_started test_type hw)
      | NotifyTestCompleted test_type result \<Rightarrow>
          Some (Hardware_notify_test_completed test_type result hw)
      | GetUserInput timeout \<Rightarrow> map_option snd (get_user_input timeout hw))"

fun do_calls :: "call list \<Rightarrow> 'a Hardware_scheme \<Rightarrow> 'a Hardware_scheme option" where
  "do_calls [] hw = Some hw"
| "do_calls (c # cs) hw =
     (case do_call c hw of
        None \<Rightarrow> None
      | Some hw' \<Rightarrow> do_calls cs hw')"

text \<open>The fields and LEDs of a kind of test.\<close>

definition scheduled_test :: "TestType \<Rightarrow> TestState \<Rightarrow> bool" where
  "scheduled_test test_type ts =
     (case test_type of
        NORMAL \<Rightarrow> scheduled_normal_test ts
      | EXTENDED \<Rightarrow> scheduled_extended_test ts)"

definition pass_led :: "TestType \<Rightarrow> Leds" where
  "pass_led test_type = (case test_type of NORMAL \<Rightarrow> NORMAL_PASS | EXTENDED \<Rightarrow> EXTENDED_PASS)"

definition fail_led :: "TestType \<Rightarrow> Leds" where
  "fail_led test_type = (case test_type of NORMAL \<Rightarrow> NORMAL_FAIL | EXTENDED \<Rightarrow> EXTENDED_FAIL)"

text \<open>
  To observe the order of what \<open>normal_check\<close> and \<open>extended_check\<close> do, the state is the
  list of the events so far: a check appends that it ran (its result may depend on what
  happened before), observer number \<open>i\<close> appends the notifications it receives.
\<close>

datatype event =
  CheckRun TestType
| TestStarted nat TestType
| TestCompleted nat TestType verdict

definition logged_check :: "TestType \<Rightarrow> (event list \<Rightarrow> check_result) \<Rightarrow> event list StatusCheck" where
  "logged_check kind result =
     \<lparr> check = (\<lambda>tr. (result tr, tr @ [CheckRun kind])),
       column_names = [],
       num_columns = 1 \<rparr>"

definition logged_observer :: "nat \<Rightarrow> event list TestObserver" where
  "logged_observer i =
     \<lparr> notify_test_started = (\<lambda>test_type tr. tr @ [TestStarted i test_type]),
       notify_test_completed = (\<lambda>test_type result tr. tr @ [TestCompleted i test_type result]) \<rparr>"

definition logged_checks ::
  "(event list \<Rightarrow> check_result) \<Rightarrow> (event list \<Rightarrow> check_result) \<Rightarrow> nat \<Rightarrow>
   event list NormalAndExtendedChecks" where
  "logged_checks normal_result extended_result n =
     \<lparr> normal_checks = logged_check NORMAL normal_result,
       extended_checks = logged_check EXTENDED extended_result,
       test_observers = map logged_observer [0..<n] \<rparr>"

text \<open>
  A world in which the clock stands at 1700000000 and nobody touches the button, a resolver
  that answers and one that fails.
\<close>

definition quiet_world :: Hardware where
  "quiet_world =
     \<lparr> clock = sconst 1700000000,
       run_test_button = sconst False,
       test_state = TestState_init,
       leds = (\<lambda>led. Some False) \<rparr>"

definition resolver_up :: "string \<Rightarrow> real \<Rightarrow> 's \<Rightarrow> string outcome \<times> 's" where
  "resolver_up host timeout s = (Returned ''142.250.1.100'', s)"

definition resolver_down :: "string \<Rightarrow> real \<Rightarrow> 's \<Rightarrow> string outcome \<times> 's" where
  "resolver_down host timeout s = (Raised, s)"

text \<open>
  Three runs of the button, with the hold threshold of 3 s and a timeout of 1 s: the button
  is never pushed; it is pushed at 100 s and released about a second later; it is pushed at
  100 s and still held at 103.5 s. The first value of each clock is the one that
  \<open>get_user_input\<close> reads for its timeout, the three values after the push are read by
  the refresh. All the times are floating point numbers.
\<close>

definition no_push_hw :: Hardware where
  "no_push_hw = (Hardware_init quiet_world)
     \<lparr> clock := 100 ## ([100.5, 100.75] @- (101.25 ## sconst 102)),
       run_test_button := [False, False] @- (False ## sconst False) \<rparr>"

definition short_push_hw :: Hardware where
  "short_push_hw = (Hardware_init quiet_world)
     \<lparr> clock := 99 ## ([99.5] @- (100 ## 100 ## 100 ## 100 ## ([100.25, 100.75] @- sconst 101))),
       run_test_button := [False] @- (True ## ([True, True] @- (False ## sconst False))) \<rparr>"

definition long_push_hw :: Hardware where
  "long_push_hw = (Hardware_init quiet_world)
     \<lparr> clock := 99 ## ([99.5] @- (100 ## 100 ## 100 ## 100 ## ([101, 102] @- (103.5 ## sconst 104)))),
       run_test_button := [False] @- (True ## ([True, True] @- (True ## sconst True))) \<rparr>"

text \<open>
  A world in which the button is held down all the time and every reading of the clock is
  a second after the one before.
\<close>

definition held_down_world :: Hardware where
  "held_down_world =
     \<lparr> clock = siterate (\<lambda>t. t + 1) 1700000000,
       run_test_button = sconst True,
       test_state = TestState_init,
       leds = (\<lambda>led. Some False) \<rparr>"

text \<open>
  The hardware after a first normal test that passed, and after a second one that failed.
  \<open>racing_state\<close> is what a refresh reads from the shared object when the second
  notification runs between its output to the Pass LED and its output to the Fail LED of
  the normal test.
\<close>

definition passed_hw :: Hardware where
  "passed_hw = Hardware_notify_test_completed NORMAL Pass (Hardware_init quiet_world)"

definition failed_hw :: Hardware where
  "failed_hw = Hardware_notify_test_completed NORMAL Fail passed_hw"

definition racing_state :: "nat \<Rightarrow> TestState" where
  "racing_state i = (if i < 3 then test_state passed_hw else test_state failed_hw)"

text \<open>
  Checks that consist of DNS checks only, observed by the hardware.
\<close>

definition dns_only_checks :: "Hardware NormalAndExtendedChecks" where
  "dns_only_checks =
     \<lparr> normal_checks = MultipleChecks [DnsCheck resolver_up ''google.com'' 10],
       extended_checks = MultipleChecks [DnsCheck resolver_up ''example.org'' 10],
       test_observers = [Hardware_observer] \<rparr>"

text \<open>
  Times at which the rounding of floating point arithmetic decides the blink state. All of
  them are floating point numbers.
  \<^item> \<open>week_tie_failure\<close> plus a week lies in the middle between two floating point
    numbers and is rounded up to \<open>week_tie_now\<close>, which is more than a week after
    \<open>week_tie_failure\<close>.
  \<^item> \<open>tenth_tie_now\<close> is the floating point number nearest to 1700000000.45; ten times
    it is a little more than 17000000004.5 and is rounded to 17000000004.5.
\<close>

definition week_tie_failure :: real where
  "week_tie_failure = 2 ^ 31 - 604800 + 3 / 2 ^ 22"

definition week_tie_now :: real where
  "week_tie_now = 2 ^ 31 + 1 / 2 ^ 20"

definition tenth_tie_now :: real where
  "tenth_tie_now = 7130316801887437 / 2 ^ 22"

section \<open>Verdict combination\<close>

lemma combine_results_simps:
  "combine_results Unknown v = v"
  "combine_results v Unknown = v"
  "combine_results Fail v = Fail"
  "combine_results Pass Pass = Pass"
  "combine_results Pass Fail = Fail"
  by (cases v; simp add: combine_results_def)+

lemma foldl_combine_Fail: "foldl combine_results Fail vs = Fail"
  by (induction vs) (simp_all add: combine_results_simps)

lemma foldl_combine_Pass:
  "foldl combine_results Pass vs = (if Fail \<in> set vs then Fail else Pass)"
proof (induction vs)
  case Nil
  show ?case by simp
next
  case (Cons v vs)
  show ?case
  proof (cases v)
    case None
    with Cons show ?thesis by (simp add: combine_results_simps)
  next
    case (Some b)
    with Cons show ?thesis
      by (cases b) (auto simp add: combine_results_simps foldl_combine_Fail)
  qed
qed

lemma foldl_combine_Unknown:
  "foldl combine_results Unknown vs =
     (if Fail \<in> set vs then Fail
      else if (\<forall>v \<in> set vs. v = Unknown) then Unknown
      else Pass)"
proof (induction vs)
  case Nil
  show ?case by simp
next
  case (Cons v vs)
  show ?case
  proof (cases v)
    case None
    with Cons show ?thesis by (simp add: combine_results_simps)
  next
    case (Some b)
    show ?thesis
    proof (cases b)
      case True
      with Some show ?thesis
        by (auto simp add: combine_results_simps foldl_combine_Pass)
    next
      case False
      with Some show ?thesis
        by (simp add: combine_results_simps foldl_combine_Fail)
    qed
  qed
qed

text \<open>
  C1. \<open>combine_results\<close> is commutative on {Unknown, Pass, Fail}, Unknown is its identity on
  both sides, and the left fold from Unknown over any finite sequence of verdicts is Fail if
  some element is Fail, Unknown if every element is Unknown, and Pass otherwise.
\<close>

theorem combine_results_fold:
  "combine_results a b = combine_results b a \<and>
   combine_results Unknown a = a \<and>
   combine_results a Unknown = a \<and>
   reduce_results vs =
     (if Fail \<in> set vs then Fail
      else if (\<forall>v \<in> set vs. v = Unknown) then Unknown
      else Pass)"
proof -
  have "combine_results a b = combine_results b a"
    by (cases a; cases b) (auto simp add: combine_results_def)
  moreover have "combine_results Unknown a = a"
    by (rule combine_results_simps)
  moreover have "combine_results a Unknown = a"
    by (rule combine_results_simps)
  ultimately show ?thesis
    unfolding reduce_results_def foldl_combine_Unknown by blast
qed

theorem combine_results_fold_witness:
  "combine_results Pass Fail = combine_results Fail Pass \<and>
   combine_results Unknown Pass = Pass \<and>
   combine_results Pass Unknown = Pass \<and>
   reduce_results [Unknown, Pass, Unknown] = Pass"
  using combine_results_fold [of Pass Fail "[Unknown, Pass, Unknown]"]
  by simp

section \<open>Floating point rounding\<close>

lemma py_round_of_int [simp]: "py_round (of_int n) = n"
  by (simp add: py_round_def)

lemma py_round_error: "\<bar>of_int (py_round y) - y\<bar> \<le> 1 / 2"
  unfolding py_round_def Let_def by (auto; linarith)

lemma bitlen_floor_eq:
  assumes "2 ^ k \<le> a" "a < 2 ^ Suc k"
  shows "bitlen \<lfloor>a::real\<rfloor> = int k + 1"
proof -
  have lo: "(2::int) ^ k \<le> \<lfloor>a\<rfloor>"
    using assms(1) by (simp add: le_floor_iff)
  have hi: "\<lfloor>a\<rfloor> < (2::int) ^ Suc k"
    using assms(2) by (simp add: floor_less_iff)
  have "bitlen \<lfloor>a\<rfloor> \<le> int k + 1"
    using hi by (simp add: bitlen_le_iff_power nat_add_distrib)
  moreover have "int k + 1 \<le> bitlen \<lfloor>a\<rfloor>"
    using lo by (simp add: bitlen_ge_iff_power nat_add_distrib)
  ultimately show ?thesis by simp
qed

text \<open>
  A number with a mantissa \<open>y\<close> between \<open>2 ^ 52\<close> and \<open>2 ^ 53\<close> is rounded by rounding the
  mantissa to an integer.
\<close>

lemma float_round_scaled:
  assumes "2 ^ 52 \<le> \<bar>y\<bar>" "\<bar>y\<bar> < 2 ^ 53"
  shows "float_round (y * 2 ^ i / 2 ^ subnormal_exponent) =
         of_int (py_round y) * 2 ^ i / 2 ^ subnormal_exponent"
proof -
  let ?m = "y * 2 ^ i"
  have "2 ^ (52 + i) \<le> \<bar>?m\<bar>" "\<bar>?m\<bar> < 2 ^ Suc (52 + i)"
    using assms(1,2) by (simp_all add: abs_mult power_add)
  then have "bitlen \<lfloor>\<bar>?m\<bar>\<rfloor> = int (52 + i) + 1"
    by (rule bitlen_floor_eq)
  then show ?thesis
    by (simp add: float_round_def Let_def)
qed

lemma float_round_mantissa:
  assumes "2 ^ 52 \<le> \<bar>y\<bar>" "\<bar>y\<bar> < 2 ^ 53"
  shows "float_round (y * 2 ^ i) = of_int (py_round y) * 2 ^ i"
    and "k \<le> subnormal_exponent \<Longrightarrow> float_round (y / 2 ^ k) = of_int (py_round y) / 2 ^ k"
proof -
  show "float_round (y * 2 ^ i) = of_int (py_round y) * 2 ^ i"
    using float_round_scaled [OF assms, of "i + subnormal_exponent"]
    by (simp add: power_add)
  assume "k \<le> subnormal_exponent"
  then obtain d where d: "subnormal_exponent = k + d"
    by (metis le_add_diff_inverse)
  show "float_round (y / 2 ^ k) = of_int (py_round y) / 2 ^ k"
    using float_round_scaled [OF assms, of d]
    by (simp add: d power_add)
qed

text \<open>
  The integers below \<open>2 ^ 53\<close> in magnitude, and their products and quotients with powers of
  two, are numbers of the format: rounding leaves them as they are.
\<close>

lemma float_round_exact_scaled:
  assumes "\<bar>n\<bar> < 2 ^ 53"
  shows "float_round (of_int n * 2 ^ i / 2 ^ subnormal_exponent) =
         of_int n * 2 ^ i / 2 ^ subnormal_exponent"
proof (cases "n = 0")
  case True
  then show ?thesis by (simp add: float_round_def py_round_def)
next
  case False
  let ?m = "of_int n * 2 ^ i :: real"
  define j where "j = nat (bitlen (\<bar>n\<bar> * 2 ^ i) - 53)"
  have abs: "\<bar>?m\<bar> = of_int (\<bar>n\<bar> * 2 ^ i)"
    by (simp add: abs_mult)
  have "bitlen \<bar>n\<bar> \<le> 53"
    using assms by (simp add: bitlen_le_iff_power)
  moreover have "bitlen (\<bar>n\<bar> * 2 ^ i) = bitlen \<bar>n\<bar> + int i"
    using False by simp
  ultimately have "j \<le> i"
    by (simp add: j_def)
  then obtain d where d: "i = j + d"
    by (metis le_add_diff_inverse)
  have "?m / 2 ^ j = of_int (n * 2 ^ d)"
    by (simp add: d power_add)
  then have "of_int (py_round (?m / 2 ^ j)) * 2 ^ j = ?m"
    by (simp only: py_round_of_int) (simp add: d power_add)
  moreover have "nat (bitlen \<lfloor>\<bar>?m\<bar>\<rfloor> - 53) = j"
    by (simp only: abs floor_of_int j_def)
  ultimately show ?thesis
    by (simp add: float_round_def Let_def)
qed

lemma float_round_exact:
  assumes "\<bar>n\<bar> < 2 ^ 53"
  shows "float_round (of_int n) = of_int n"
    and "float_round (of_int n * 2 ^ i) = of_int n * 2 ^ i"
    and "k \<le> subnormal_exponent \<Longrightarrow> float_round (of_int n / 2 ^ k) = of_int n / 2 ^ k"
proof -
  show 2: "float_round (of_int n * 2 ^ i) = of_int n * 2 ^ i" for i
    using float_round_exact_scaled [OF assms, of "i + subnormal_exponent"]
    by (simp add: power_add)
  from 2 [of 0] show "float_round (of_int n) = of_int n" by simp
  assume "k \<le> subnormal_exponent"
  then obtain d where d: "subnormal_exponent = k + d"
    by (metis le_add_diff_inverse)
  show "float_round (of_int n / 2 ^ k) = of_int n / 2 ^ k"
    using float_round_exact_scaled [OF assms, of d]
    by (simp add: d power_add)
qed

lemma float_round_numeral:
  "(numeral k :: int) < 9007199254740992 \<Longrightarrow> float_round (numeral k) = numeral k"
  using float_round_exact(1) [of "numeral k"] by simp

lemma float_round_0 [simp]: "float_round 0 = 0"
  using float_round_exact(1) [of 0] by simp

lemma float_round_1 [simp]: "float_round 1 = 1"
  using float_round_exact(1) [of 1] by simp

lemma float_add_numeral:
  "float_add 0 (numeral k) = float_round (numeral k)"
  "float_add (numeral j) (numeral k) = float_round (numeral (j + k))"
  by (simp_all add: float_add_def)

lemma float_mul_numeral:
  "float_mul (numeral j) (numeral k) = float_round (numeral (j * k))"
  by (simp add: float_mul_def)

text \<open>
  From 1 on, rounding changes a number by at most the \<open>2 ^ 53\<close>th part of it.
\<close>

lemma float_round_error:
  assumes "1 \<le> x"
  shows "\<bar>float_round x - x\<bar> \<le> x / 2 ^ 53"
proof -
  define m where "m = x * 2 ^ subnormal_exponent"
  define b where "b = bitlen \<lfloor>\<bar>m\<bar>\<rfloor>"
  define q :: real where "q = 2 ^ nat (b - 53)"
  have m1: "2 ^ subnormal_exponent \<le> m"
    using assms by (simp add: m_def)
  moreover have "0 < (2::real) ^ subnormal_exponent"
    by simp
  ultimately have mpos: "0 < m" "\<bar>m\<bar> = m"
    by linarith+
  have "(2::int) ^ subnormal_exponent \<le> \<lfloor>m\<rfloor>"
    using m1 by (simp add: le_floor_iff)
  moreover have "(2::int) ^ 53 \<le> 2 ^ subnormal_exponent"
    by (rule power_increasing) (simp_all add: subnormal_exponent_def)
  ultimately have big: "(2::int) ^ 53 \<le> \<lfloor>m\<rfloor>"
    by (rule order_trans [rotated])
  then have fpos: "0 < \<lfloor>m\<rfloor>"
    by simp
  have "53 < b"
    using big by (simp add: b_def mpos bitlen_ge_iff_power less_le_not_le bitlen_le_iff_power)
  then have nat: "nat (b - 1) = nat (b - 53) + 52"
    by simp
  have "(2::int) ^ nat (b - 1) \<le> \<lfloor>m\<rfloor>"
    using bitlen_bounds [OF fpos] by (simp add: b_def mpos)
  then have "(2::real) ^ nat (b - 1) \<le> of_int \<lfloor>m\<rfloor>"
    by (metis of_int_le_iff of_int_numeral of_int_power)
  also have "\<dots> \<le> m" by simp
  finally have q52: "q * 2 ^ 52 \<le> m"
    by (simp add: q_def nat power_add)
  have qpos: "0 < q" by (simp add: q_def)
  have "of_int (py_round (m / q)) * q - m = (of_int (py_round (m / q)) - m / q) * q"
    using qpos by (simp add: field_simps)
  then have "\<bar>of_int (py_round (m / q)) * q - m\<bar> = \<bar>of_int (py_round (m / q)) - m / q\<bar> * q"
    using qpos by (simp only: abs_mult)
  also have "\<dots> \<le> 1 / 2 * q"
    using py_round_error [of "m / q"] qpos by (intro mult_right_mono) simp_all
  also have "\<dots> \<le> m / 2 ^ 53"
    using q52 by simp
  finally have "\<bar>of_int (py_round (m / q)) * q - m\<bar> \<le> m / 2 ^ 53" .
  then have "\<bar>of_int (py_round (m / q)) * q - m\<bar> / 2 ^ subnormal_exponent
                  \<le> m / 2 ^ 53 / 2 ^ subnormal_exponent"
    by (rule divide_right_mono) simp
  moreover have "float_round x - x = (of_int (py_round (m / q)) * q - m) / 2 ^ subnormal_exponent"
    by (simp add: float_round_def Let_def m_def [symmetric] b_def [symmetric] q_def [symmetric]
        diff_divide_distrib) (simp add: m_def)
  ultimately show ?thesis
    by (simp add: m_def)
qed

lemma float_add_near:
  assumes "0 \<le> t" "t \<le> 2 ^ 62" "1 \<le> c" "c \<le> 2 ^ 62"
  shows "\<bar>float_add t c - (t + c)\<bar> \<le> 1024"
proof -
  have "\<bar>float_round (t + c) - (t + c)\<bar> \<le> (t + c) / 2 ^ 53"
    using assms by (intro float_round_error) simp
  also have "\<dots> \<le> (2 ^ 62 + 2 ^ 62) / 2 ^ 53"
    using assms by (intro divide_right_mono add_mono) simp_all
  also have "\<dots> = 1024" by simp
  finally show ?thesis by (simp add: float_add_def)
qed

section \<open>The blink regime\<close>

lemma mod_pos_iff: "(0::int) < m \<Longrightarrow> (0 < k mod m) = (k mod m \<noteq> 0)"
  using pos_mod_sign [of m k] by linarith

lemma blink_state_at_eq:
  "blink_state_at now lf =
     (if now \<le> float_add lf (60 * 60) then py_round (float_mul now 10) mod 2 \<noteq> 0
      else if now \<le> float_add lf (24 * (60 * 60)) then py_round now mod 2 \<noteq> 0
      else if now \<le> float_add lf (7 * (24 * (60 * 60))) then py_round (float_mul now 10) mod 20 \<noteq> 0
      else True)"
proof -
  have m2: "\<And>k::int. (0 < k mod 2) = (k mod 2 \<noteq> 0)"
    by (rule mod_pos_iff) simp
  have m20: "\<And>k::int. (0 < k mod 20) = (k mod 20 \<noteq> 0)"
    by (rule mod_pos_iff) simp
  show ?thesis
    unfolding blink_state_at_def Let_def m2 m20 by simp
qed

text \<open>
  C5, as the code has it. The blink state is decided by comparing now with the last failure
  time plus one hour, plus one day and plus one week, the sums being floating point sums
  and each bound inclusive: up to and including the first the fast toggle (on iff
  \<open>round(now * 10) mod 2 \<noteq> 0\<close>, of the floating point product), else up to and including
  the second the slow toggle (on iff \<open>round(now) mod 2 \<noteq> 0\<close>), else up to and including the
  third the toggle with the pause (on iff \<open>round(now * 10) mod 20 \<noteq> 0\<close>), else steady on.
  Whenever the three sums are formed without rounding, this is a function of the time since
  the last failure, with the inclusive bounds of one hour, one day and one week. For a last
  failure time between 0 and \<open>2 ^ 62\<close>, no time since the failure is the fast toggle, two
  days the toggle with the pause, two weeks steady on.
\<close>

theorem blink_regime:
  "blink_state_at now last_failure_time =
     (if now \<le> float_add last_failure_time (60 * 60)
      then py_round (float_mul now 10) mod 2 \<noteq> 0
      else if now \<le> float_add last_failure_time (24 * (60 * 60))
      then py_round now mod 2 \<noteq> 0
      else if now \<le> float_add last_failure_time (7 * (24 * (60 * 60)))
      then py_round (float_mul now 10) mod 20 \<noteq> 0
      else True) \<and>
   (float_add last_failure_time (60 * 60) = last_failure_time + 60 * 60 \<and>
    float_add last_failure_time (24 * (60 * 60)) = last_failure_time + 24 * (60 * 60) \<and>
    float_add last_failure_time (7 * (24 * (60 * 60))) = last_failure_time + 7 * (24 * (60 * 60)) \<longrightarrow>
    blink_state_at now last_failure_time =
      (let elapsed = now - last_failure_time
       in if elapsed \<le> 60 * 60 then py_round (float_mul now 10) mod 2 \<noteq> 0
          else if elapsed \<le> 24 * (60 * 60) then py_round now mod 2 \<noteq> 0
          else if elapsed \<le> 7 * (24 * (60 * 60)) then py_round (float_mul now 10) mod 20 \<noteq> 0
          else True)) \<and>
   (0 \<le> t \<and> t \<le> 2 ^ 62 \<longrightarrow>
    blink_state_at t t = (py_round (float_mul t 10) mod 2 \<noteq> 0) \<and>
    blink_state_at (t + 2 * (24 * (60 * 60))) t =
      (py_round (float_mul (t + 2 * (24 * (60 * 60))) 10) mod 20 \<noteq> 0) \<and>
    blink_state_at (t + 14 * (24 * (60 * 60))) t = True)"
proof (intro conjI impI)
  show "blink_state_at now last_failure_time =
     (if now \<le> float_add last_failure_time (60 * 60)
      then py_round (float_mul now 10) mod 2 \<noteq> 0
      else if now \<le> float_add last_failure_time (24 * (60 * 60))
      then py_round now mod 2 \<noteq> 0
      else if now \<le> float_add last_failure_time (7 * (24 * (60 * 60)))
      then py_round (float_mul now 10) mod 20 \<noteq> 0
      else True)"
    by (rule blink_state_at_eq)
next
  assume "float_add last_failure_time (60 * 60) = last_failure_time + 60 * 60 \<and>
    float_add last_failure_time (24 * (60 * 60)) = last_failure_time + 24 * (60 * 60) \<and>
    float_add last_failure_time (7 * (24 * (60 * 60))) = last_failure_time + 7 * (24 * (60 * 60))"
  then show "blink_state_at now last_failure_time =
      (let elapsed = now - last_failure_time
       in if elapsed \<le> 60 * 60 then py_round (float_mul now 10) mod 2 \<noteq> 0
          else if elapsed \<le> 24 * (60 * 60) then py_round now mod 2 \<noteq> 0
          else if elapsed \<le> 7 * (24 * (60 * 60)) then py_round (float_mul now 10) mod 20 \<noteq> 0
          else True)"
    by (simp add: blink_state_at_eq Let_def algebra_simps)
next
  assume t: "0 \<le> t \<and> t \<le> 2 ^ 62"
  have hour: "t + 2576 \<le> float_add t 3600" "float_add t 3600 \<le> t + 4624"
    using float_add_near [of t 3600] t by (simp_all add: abs_le_iff)
  have day: "t + 85376 \<le> float_add t 86400" "float_add t 86400 \<le> t + 87424"
    using float_add_near [of t 86400] t by (simp_all add: abs_le_iff)
  have week: "t + 603776 \<le> float_add t 604800" "float_add t 604800 \<le> t + 605824"
    using float_add_near [of t 604800] t by (simp_all add: abs_le_iff)
  show "blink_state_at t t = (py_round (float_mul t 10) mod 2 \<noteq> 0)"
    using hour by (simp add: blink_state_at_eq)
  show "blink_state_at (t + 2 * (24 * (60 * 60))) t =
      (py_round (float_mul (t + 2 * (24 * (60 * 60))) 10) mod 20 \<noteq> 0)"
    using hour day week by (simp add: blink_state_at_eq)
  show "blink_state_at (t + 14 * (24 * (60 * 60))) t = True"
    using hour day week by (simp add: blink_state_at_eq)
qed

theorem blink_regime_witness:
  "blink_state_at 1700003601 1700000001 = (py_round (float_mul 1700003601 10) mod 2 \<noteq> 0) \<and>
   blink_state_at 1700000000 1700000000 = (py_round (float_mul 1700000000 10) mod 2 \<noteq> 0) \<and>
   blink_state_at (1700000000 + 2 * (24 * (60 * 60))) 1700000000 =
     (py_round (float_mul (1700000000 + 2 * (24 * (60 * 60))) 10) mod 20 \<noteq> 0) \<and>
   blink_state_at (1700000000 + 14 * (24 * (60 * 60))) 1700000000 = True"
  using blink_regime [of 1700003601 1700000001 1700000000]
  by (simp add: float_add_numeral float_round_numeral)

text \<open>
  The strict bound of the specification fails exactly one hour after a failure: the code is
  still in the fast toggle (off at this instant), the specification's wording is already in
  the slow toggle (on at this instant). The times are whole numbers of seconds, which
  floating point holds, adds and multiplies by ten without rounding.
\<close>

theorem blink_strict_bound_counterexample:
  "blink_state_at 1700003601 1700000001 \<noteq> spec_blink_state 1700003601 1700000001"
  by (simp add: blink_state_at_eq spec_blink_state_def float_add_numeral float_mul_numeral
      float_round_numeral py_round_def)

text \<open>
  Where a sum or a product is rounded, the blink state follows the rounded number.
  \<^item> \<open>week_tie_now\<close> is more than a week after \<open>week_tie_failure\<close>, and the blink state is
    still the one of the toggle with the pause (off at this instant) and not steady on: the
    failure time plus a week is rounded up to \<open>week_tie_now\<close>.
  \<^item> At \<open>tenth_tie_now\<close>, within the hour after a failure, the blink state is off, though the
    nearest integer to ten times \<open>tenth_tie_now\<close> is odd: the product is rounded to
    17000000004.5 first, and from there to the even 17000000004.
\<close>

lemma py_round_fraction:
  "py_round (9007199254740995 / 2) = 4503599627370498"
  "py_round (11258999068426245 / 2) = 5629499534213122"
  "py_round (35651584009437185 / 4) = 8912896002359296"
  "py_round (2814749767106561 / 131072) = 21474836480"
  "py_round (34000000009 / 2) = 17000000004"
  by (simp_all add: py_round_def Let_def)

lemma week_tie_sums:
  "float_add week_tie_failure 3600 = 2 ^ 31 - 601200 + 3 / 2 ^ 22"
  "float_add week_tie_failure 86400 = 2 ^ 31 - 518400 + 3 / 2 ^ 22"
  "float_add week_tie_failure 604800 = 2 ^ 31 + 1 / 2 ^ 20"
  using float_round_exact(3) [of 9004677639176195 22]
        float_round_exact(3) [of 9005024927547395 22]
        float_round_mantissa(2) [of "9007199254740995 / 2" 21]
  by (simp_all add: float_add_def week_tie_failure_def py_round_fraction subnormal_exponent_def)

lemma week_tie_product:
  "float_mul week_tie_now 10 = 2814749767106561 / 131072"
  using float_round_mantissa(2) [of "11258999068426245 / 2" 18]
  by (simp add: float_mul_def week_tie_now_def py_round_fraction subnormal_exponent_def)

lemma blink_state_at_week_tie:
  "blink_state_at week_tie_now week_tie_failure = False \<and>
   week_tie_now - week_tie_failure > 7 * (24 * (60 * 60))"
  by (simp add: blink_state_at_eq week_tie_sums week_tie_product py_round_fraction)
     (simp add: week_tie_now_def week_tie_failure_def)

lemma tenth_tie_product:
  "float_mul tenth_tie_now 10 = 34000000009 / 2"
  using float_round_mantissa(2) [of "35651584009437185 / 4" 19]
  by (simp add: float_mul_def tenth_tie_now_def py_round_fraction subnormal_exponent_def)

lemma blink_state_at_tenth_tie:
  "blink_state_at tenth_tie_now 1700000000 = False \<and>
   py_round (tenth_tie_now * 10) mod 2 \<noteq> 0"
  by (simp add: blink_state_at_eq float_add_numeral float_round_numeral tenth_tie_product
      py_round_fraction)
     (simp add: tenth_tie_now_def py_round_def Let_def)

section \<open>The LED refresh\<close>

lemma update_leds_eq:
  "update_leds hw =
     (let ts = test_state hw;
          current_time = shd (clock hw);
          normal_blink_state = blink_state_at (shd (stl (clock hw))) (last_normal_test_failure_time ts);
          extended_blink_state = blink_state_at (shd (stl (stl (clock hw)))) (last_extended_test_failure_time ts)
      in hw\<lparr>clock := stl (stl (stl (clock hw))),
            leds := (leds hw)
              (NORMAL_PASS := py_and (Some normal_blink_state)
                                (py_and (normal_test_result ts) (Some (\<not> scheduled_normal_test ts))),
               NORMAL_FAIL := py_and (py_not (normal_test_result ts)) (Some (\<not> scheduled_normal_test ts)),
               EXTENDED_PASS := py_and (Some extended_blink_state)
                                (py_and (extended_test_result ts) (Some (\<not> scheduled_extended_test ts))),
               EXTENDED_FAIL := py_and (py_not (extended_test_result ts)) (Some (\<not> scheduled_extended_test ts)),
               TEST_RUNNING := Some (normal_test_running ts \<or> extended_test_running ts \<or>
                                     float_add (last_normal_test_started_time ts) 1 \<ge> current_time \<or>
                                     float_add (last_extended_test_started_time ts) 1 \<ge> current_time))\<rparr>)"
  by (simp add: update_leds_def time_time_def get_blink_state_def GPIO_output_def Let_def)

lemma update_leds_test_state [simp]: "test_state (update_leds hw) = test_state hw"
  by (simp add: update_leds_eq Let_def)

lemma update_leds_button [simp]: "run_test_button (update_leds hw) = run_test_button hw"
  by (simp add: update_leds_eq Let_def)

lemma update_leds_clock [simp]: "clock (update_leds hw) = stl (stl (stl (clock hw)))"
  by (simp add: update_leds_eq Let_def)

lemma truthy_py_and: "truthy (py_and x y) = (truthy x \<and> truthy y)"
  by (auto simp add: truthy_def py_and_def)

lemma py_and_not: "py_and (py_not x) (Some b) = Some (\<not> truthy x \<and> b)"
  by (simp add: py_and_def py_not_def truthy_def)

text \<open>
  On a verdict that is \<open>True\<close> or \<open>False\<close> the two expressions of Python are the
  conjunctions of booleans.
\<close>

lemma py_and_bool:
  "r \<noteq> Unknown \<Longrightarrow> py_and (Some b) (py_and r (Some c)) = Some (b \<and> r = Pass \<and> c)"
  "r \<noteq> Unknown \<Longrightarrow> py_and (py_not r) (Some c) = Some (r = Fail \<and> c)"
  by (cases r; auto simp add: py_and_def py_not_def truthy_def)+

text \<open>
  The verdict that \<open>notify_test_completed\<close> stores is the fold of the verdicts of the
  columns: a boolean as soon as one column is evaluated.
\<close>

lemma reduce_results_bool:
  "(reduce_results vs \<noteq> Unknown) = (\<exists>v \<in> set vs. v \<noteq> Unknown)"
  by (auto simp add: reduce_results_def foldl_combine_Unknown)

text \<open>
  With the same content at every reading, and so at every statement, the refresh beside
  another thread is the refresh alone; reading by reading includes statement by statement.
\<close>

lemma update_leds_reads_alone:
  "update_leds_reads (\<lambda>i. test_state hw) hw = update_leds hw"
  by (simp add: update_leds_reads_def update_leds_def Let_def case_prod_beta
      time_time_def get_blink_state_def GPIO_output_def)

lemma update_leds_alone:
  "update_leds_shared (\<lambda>i. test_state hw) hw = update_leds hw"
  by (simp add: update_leds_shared_def update_leds_def Let_def case_prod_beta
      time_time_def get_blink_state_def GPIO_output_def)

lemma update_leds_shared_reads:
  "update_leds_shared shared hw = update_leds_reads (shared \<circ> statement_of) hw"
  by (simp add: update_leds_shared_def update_leds_reads_def statement_of_def Let_def
      case_prod_beta)

lemma update_leds_reads_leds:
  "leds (update_leds_reads reads hw) =
     (leds hw)
       (NORMAL_PASS :=
          py_and (Some (blink_state_at (shd (stl (clock hw))) (last_normal_test_failure_time (reads 0))))
            (py_and (normal_test_result (reads 2)) (Some (\<not> scheduled_normal_test (reads 3)))),
        NORMAL_FAIL :=
          py_and (py_not (normal_test_result (reads 4))) (Some (\<not> scheduled_normal_test (reads 5))),
        EXTENDED_PASS :=
          py_and (Some (blink_state_at (shd (stl (stl (clock hw))))
                          (last_extended_test_failure_time (reads 1))))
            (py_and (extended_test_result (reads 6)) (Some (\<not> scheduled_extended_test (reads 7)))),
        EXTENDED_FAIL :=
          py_and (py_not (extended_test_result (reads 8))) (Some (\<not> scheduled_extended_test (reads 9))),
        TEST_RUNNING :=
          Some (normal_test_running (reads 10) \<or> extended_test_running (reads 11) \<or>
                float_add (last_normal_test_started_time (reads 12)) 1 \<ge> shd (clock hw) \<or>
                float_add (last_extended_test_started_time (reads 13)) 1 \<ge> shd (clock hw)))"
  by (simp add: update_leds_reads_def time_time_def get_blink_state_def GPIO_output_def Let_def)

lemma passed_failed_state:
  "test_state passed_hw = TestState_init\<lparr>scheduled_normal_test := False\<rparr>"
  "clock passed_hw = sconst 1700000000"
  "test_state failed_hw =
     TestState_init\<lparr>normal_test_result := Fail, scheduled_normal_test := False,
                     last_normal_test_failure_time := 1700000000\<rparr>"
  by (simp_all add: passed_hw_def failed_hw_def Hardware_notify_test_completed_def Hardware_init_def
      quiet_world_def time_time_def truthy_def Let_def TestState_init_def)

text \<open>
  C3. The stored verdict of a kind is a boolean, \<open>True\<close> for Pass and \<open>False\<close> for Fail.
  On every refresh, be it alone or beside a thread that changes the state between any two
  readings of a field, the values handed to the driver are:
  \<^item> for the Pass LED of a kind, the boolean: the blink state of the kind is on, and the last
    verdict is Pass, and the kind is not scheduled;
  \<^item> for the Fail LED of a kind, the boolean: the last verdict is Fail, and the kind is not
    scheduled, without blinking;
  \<^item> for the Running LED, the boolean: the normal test is running, or the extended test is
    running, or now is at most the last start of either plus one second, the sum being a
    floating point sum.
  Each field has the value it has when the refresh reads it. The blink states are those of
  the second and third reading of the clock in the refresh, now is the first reading.
\<close>

theorem update_leds_outputs:
  "(normal_test_result (reads 2) \<noteq> Unknown \<and> normal_test_result (reads 4) \<noteq> Unknown \<and>
    extended_test_result (reads 6) \<noteq> Unknown \<and> extended_test_result (reads 8) \<noteq> Unknown \<longrightarrow>
      leds (update_leds_reads reads hw) NORMAL_PASS =
        Some (blink_state_at (shd (stl (clock hw))) (last_normal_test_failure_time (reads 0)) \<and>
              normal_test_result (reads 2) = Pass \<and>
              \<not> scheduled_normal_test (reads 3)) \<and>
      leds (update_leds_reads reads hw) NORMAL_FAIL =
        Some (normal_test_result (reads 4) = Fail \<and> \<not> scheduled_normal_test (reads 5)) \<and>
      leds (update_leds_reads reads hw) EXTENDED_PASS =
        Some (blink_state_at (shd (stl (stl (clock hw)))) (last_extended_test_failure_time (reads 1)) \<and>
              extended_test_result (reads 6) = Pass \<and>
              \<not> scheduled_extended_test (reads 7)) \<and>
      leds (update_leds_reads reads hw) EXTENDED_FAIL =
        Some (extended_test_result (reads 8) = Fail \<and> \<not> scheduled_extended_test (reads 9)) \<and>
      leds (update_leds_reads reads hw) TEST_RUNNING =
        Some (normal_test_running (reads 10) \<or>
              extended_test_running (reads 11) \<or>
              shd (clock hw) \<le> float_add (last_normal_test_started_time (reads 12)) 1 \<or>
              shd (clock hw) \<le> float_add (last_extended_test_started_time (reads 13)) 1)) \<and>
   (normal_test_result (test_state hw) \<noteq> Unknown \<and>
    extended_test_result (test_state hw) \<noteq> Unknown \<longrightarrow>
      leds (update_leds hw) NORMAL_PASS =
        Some (blink_state_at (shd (stl (clock hw))) (last_normal_test_failure_time (test_state hw)) \<and>
              normal_test_result (test_state hw) = Pass \<and>
              \<not> scheduled_normal_test (test_state hw)) \<and>
      leds (update_leds hw) NORMAL_FAIL =
        Some (normal_test_result (test_state hw) = Fail \<and> \<not> scheduled_normal_test (test_state hw)) \<and>
      leds (update_leds hw) EXTENDED_PASS =
        Some (blink_state_at (shd (stl (stl (clock hw)))) (last_extended_test_failure_time (test_state hw)) \<and>
              extended_test_result (test_state hw) = Pass \<and>
              \<not> scheduled_extended_test (test_state hw)) \<and>
      leds (update_leds hw) EXTENDED_FAIL =
        Some (extended_test_result (test_state hw) = Fail \<and> \<not> scheduled_extended_test (test_state hw)) \<and>
      leds (update_leds hw) TEST_RUNNING =
        Some (normal_test_running (test_state hw) \<or>
              extended_test_running (test_state hw) \<or>
              shd (clock hw) \<le> float_add (last_normal_test_started_time (test_state hw)) 1 \<or>
              shd (clock hw) \<le> float_add (last_extended_test_started_time (test_state hw)) 1))"
proof -
  have reads: "leds (update_leds_reads r hw) NORMAL_PASS =
        Some (blink_state_at (shd (stl (clock hw))) (last_normal_test_failure_time (r 0)) \<and>
              normal_test_result (r 2) = Pass \<and>
              \<not> scheduled_normal_test (r 3)) \<and>
      leds (update_leds_reads r hw) NORMAL_FAIL =
        Some (normal_test_result (r 4) = Fail \<and> \<not> scheduled_normal_test (r 5)) \<and>
      leds (update_leds_reads r hw) EXTENDED_PASS =
        Some (blink_state_at (shd (stl (stl (clock hw)))) (last_extended_test_failure_time (r 1)) \<and>
              extended_test_result (r 6) = Pass \<and>
              \<not> scheduled_extended_test (r 7)) \<and>
      leds (update_leds_reads r hw) EXTENDED_FAIL =
        Some (extended_test_result (r 8) = Fail \<and> \<not> scheduled_extended_test (r 9)) \<and>
      leds (update_leds_reads r hw) TEST_RUNNING =
        Some (normal_test_running (r 10) \<or>
              extended_test_running (r 11) \<or>
              shd (clock hw) \<le> float_add (last_normal_test_started_time (r 12)) 1 \<or>
              shd (clock hw) \<le> float_add (last_extended_test_started_time (r 13)) 1)"
    if "normal_test_result (r 2) \<noteq> Unknown" "normal_test_result (r 4) \<noteq> Unknown"
       "extended_test_result (r 6) \<noteq> Unknown" "extended_test_result (r 8) \<noteq> Unknown"
    for r :: "nat \<Rightarrow> TestState"
    using that by (simp add: update_leds_reads_leds py_and_bool)
  from reads [of reads] reads [of "\<lambda>i. test_state hw"]
  show ?thesis
    by (simp only: update_leds_reads_alone) blast
qed

theorem update_leds_outputs_witness:
  "leds (update_leds_reads (racing_state \<circ> statement_of) passed_hw) NORMAL_PASS = Some True \<and>
   leds (update_leds_reads (racing_state \<circ> statement_of) passed_hw) NORMAL_FAIL = Some True \<and>
   leds (update_leds_reads (racing_state \<circ> statement_of) passed_hw) EXTENDED_PASS = Some False \<and>
   leds (update_leds_reads (racing_state \<circ> statement_of) passed_hw) EXTENDED_FAIL = Some False \<and>
   leds (update_leds_reads (racing_state \<circ> statement_of) passed_hw) TEST_RUNNING = Some False \<and>
   leds (update_leds passed_hw) NORMAL_PASS = Some True \<and>
   leds (update_leds passed_hw) NORMAL_FAIL = Some False \<and>
   leds (update_leds passed_hw) EXTENDED_PASS = Some False \<and>
   leds (update_leds passed_hw) EXTENDED_FAIL = Some False \<and>
   leds (update_leds passed_hw) TEST_RUNNING = Some False"
  using update_leds_outputs [of "racing_state \<circ> statement_of" passed_hw]
  by (simp add: statement_of_def racing_state_def passed_failed_state TestState_init_def
      blink_state_at_eq float_add_def float_round_numeral)

lemma DnsCheck_check:
  "check (DnsCheck dns_resolve host timeout) s =
     ((case fst (dns_resolve host timeout s) of Returned ipv4 \<Rightarrow> ''True'' | Raised \<Rightarrow> ''False'',
       [Unknown]),
      snd (dns_resolve host timeout s))"
  by (simp add: DnsCheck_def StatusCheck_check_def DnsCheck_do_check_def DnsCheck_do_to_value_def
      split: prod.splits outcome.splits)

section \<open>The scheduled flags\<close>

lemma get_user_input_round_eq:
  "get_user_input_round timeout_time None hw =
     (if shd (run_test_button hw)
      then Continue (Some (shd (clock hw)))
             (update_leds (hw\<lparr>run_test_button := stl (run_test_button hw), clock := stl (clock hw),
                              test_state := (test_state hw)\<lparr>scheduled_normal_test := True\<rparr>\<rparr>))
      else if timeout_time \<le> shd (clock hw)
           then Return NO_INPUT (hw\<lparr>run_test_button := stl (run_test_button hw), clock := stl (clock hw)\<rparr>)
           else Continue None (hw\<lparr>run_test_button := stl (run_test_button hw), clock := stl (clock hw)\<rparr>))"
  "get_user_input_round timeout_time (Some pushed) hw =
     (if \<not> shd (run_test_button hw)
      then Return NORMAL_TEST (hw\<lparr>run_test_button := stl (run_test_button hw)\<rparr>)
      else if float_add pushed 3 \<le> shd (clock hw)
           then Return EXTENDED_TEST
                  (update_leds (hw\<lparr>run_test_button := stl (run_test_button hw), clock := stl (clock hw),
                                   test_state := (test_state hw)\<lparr>scheduled_extended_test := True\<rparr>\<rparr>))
           else Continue (Some pushed)
                  (hw\<lparr>run_test_button := stl (run_test_button hw), clock := stl (clock hw)\<rparr>))"
  by (simp_all add: get_user_input_round_def GPIO_input_def time_time_def time_sleep_def
      button_push_time_for_extended_test_def Let_def)

lemma get_user_input_round_scheduled:
  assumes "scheduled_test kind (test_state hw)"
  shows "(get_user_input_round timeout_time user_input_time hw = Return user_input hw' \<longrightarrow>
            scheduled_test kind (test_state hw')) \<and>
         (get_user_input_round timeout_time user_input_time hw = Continue user_input_time' hw' \<longrightarrow>
            scheduled_test kind (test_state hw'))"
  using assms
  by (cases user_input_time; cases kind)
     (auto simp add: get_user_input_round_eq scheduled_test_def split: if_splits)

lemma get_user_input_loop_scheduled:
  assumes "get_user_input_loop timeout_time user_input_time hw = Some r"
  shows "scheduled_test kind (test_state hw) \<longrightarrow> scheduled_test kind (test_state (snd r))"
proof (rule get_user_input_loop.raw_induct
    [where P = "\<lambda>tt uit h res. scheduled_test kind (test_state h) \<longrightarrow>
                                scheduled_test kind (test_state (snd res))", OF _ assms])
  fix loop :: "real \<Rightarrow> real option \<Rightarrow> 'a Hardware_scheme \<Rightarrow> (UserInput \<times> 'a Hardware_scheme) option"
  fix tt uit h res
  assume IH: "\<And>tt uit h res. loop tt uit h = Some res \<Longrightarrow>
                scheduled_test kind (test_state h) \<longrightarrow> scheduled_test kind (test_state (snd res))"
  assume step: "(case get_user_input_round tt uit h of
                   Return user_input hw' \<Rightarrow> Some (user_input, hw')
                 | Continue uit' hw' \<Rightarrow> loop tt uit' hw') = Some res"
  show "scheduled_test kind (test_state h) \<longrightarrow> scheduled_test kind (test_state (snd res))"
  proof
    assume sch: "scheduled_test kind (test_state h)"
    show "scheduled_test kind (test_state (snd res))"
    proof (cases "get_user_input_round tt uit h")
      case (Return user_input hw')
      with step get_user_input_round_scheduled [OF sch, of tt uit user_input hw'] show ?thesis
        by auto
    next
      case (Continue uit' hw')
      with step have "loop tt uit' hw' = Some res" by simp
      from IH [OF this] get_user_input_round_scheduled [OF sch, of tt uit _ hw' uit'] Continue
      show ?thesis by simp
    qed
  qed
qed

lemma get_user_input_scheduled:
  "get_user_input timeout hw = Some r \<Longrightarrow>
   scheduled_test kind (test_state hw) \<Longrightarrow> scheduled_test kind (test_state (snd r))"
  using get_user_input_loop_scheduled
    [of "float_add (shd (clock hw)) timeout" None "hw\<lparr>clock := stl (clock hw)\<rparr>" r kind]
  by (simp add: get_user_input_def Let_def time_time_def)

lemma notify_test_started_state:
  "scheduled_test kind (test_state (Hardware_notify_test_started test_type hw)) =
   scheduled_test kind (test_state hw)"
  by (cases test_type; cases kind)
     (simp_all add: Hardware_notify_test_started_def time_time_def scheduled_test_def Let_def)

lemma notify_test_completed_other:
  "test_type \<noteq> kind \<Longrightarrow>
   scheduled_test kind (test_state (Hardware_notify_test_completed test_type result hw)) =
   scheduled_test kind (test_state hw)"
  by (cases test_type; cases kind)
     (simp_all add: Hardware_notify_test_completed_def time_time_def scheduled_test_def Let_def)

lemma notify_test_completed_same:
  "\<not> scheduled_test kind (test_state (Hardware_notify_test_completed kind result hw))"
  by (cases kind)
     (simp_all add: Hardware_notify_test_completed_def time_time_def scheduled_test_def Let_def)

lemma do_call_scheduled:
  "do_call c hw = Some hw' \<Longrightarrow> (\<forall>result. c \<noteq> NotifyTestCompleted kind result) \<Longrightarrow>
   scheduled_test kind (test_state hw) \<Longrightarrow> scheduled_test kind (test_state hw')"
proof (cases c)
  case Update
  assume "do_call c hw = Some hw'" "scheduled_test kind (test_state hw)"
  with Update show ?thesis by (auto simp add: do_call_def update_def)
next
  case (NotifyTestStarted t)
  assume "do_call c hw = Some hw'" "scheduled_test kind (test_state hw)"
  with NotifyTestStarted show ?thesis
    by (auto simp add: do_call_def notify_test_started_state)
next
  case (NotifyTestCompleted t r)
  assume "do_call c hw = Some hw'" "scheduled_test kind (test_state hw)"
     and "\<forall>result. c \<noteq> NotifyTestCompleted kind result"
  with NotifyTestCompleted show ?thesis
    by (auto simp add: do_call_def notify_test_completed_other)
next
  case (GetUserInput timeout)
  assume "do_call c hw = Some hw'" "scheduled_test kind (test_state hw)"
  with GetUserInput show ?thesis
    by (auto simp add: do_call_def dest: get_user_input_scheduled)
qed

lemma do_calls_scheduled:
  "do_calls calls hw = Some hw' \<Longrightarrow> (\<forall>result. NotifyTestCompleted kind result \<notin> set calls) \<Longrightarrow>
   scheduled_test kind (test_state hw) \<Longrightarrow> scheduled_test kind (test_state hw')"
proof (induction calls arbitrary: hw)
  case Nil
  then show ?case by simp
next
  case (Cons c cs)
  from Cons.prems(1) obtain hw1 where c: "do_call c hw = Some hw1" and cs: "do_calls cs hw1 = Some hw'"
    by (auto split: option.splits)
  from Cons.prems(2) have "\<forall>result. c \<noteq> NotifyTestCompleted kind result"
    by auto
  with c Cons.prems(3) have "scheduled_test kind (test_state hw1)"
    by (auto intro: do_call_scheduled)
  with Cons.IH [OF cs] Cons.prems(2) show ?case by simp
qed

lemma scheduled_leds_off:
  "scheduled_test kind (test_state hw) \<Longrightarrow>
   \<not> truthy (leds (update_leds hw) (pass_led kind)) \<and> leds (update_leds hw) (fail_led kind) = Some False"
  by (cases kind)
     (simp_all add: update_leds_eq Let_def scheduled_test_def pass_led_def fail_led_def
        truthy_py_and py_and_not, simp_all add: truthy_def)

lemma init_scheduled: "scheduled_test kind (test_state (Hardware_init world))"
  by (cases kind) (simp_all add: Hardware_init_def TestState_init_def scheduled_test_def)

lemma init_leds_off:
  "led \<noteq> TEST_RUNNING \<Longrightarrow> leds (update_leds (Hardware_init world)) led = Some False"
  by (cases led)
     (simp_all add: update_leds_eq Let_def Hardware_init_def TestState_init_def py_and_def py_not_def truthy_def)

text \<open>
  C4. The constructor sets both scheduled flags. Whatever methods are called afterwards, as
  long as \<open>notify_test_completed\<close> has not been called for a kind, the flag of the kind is
  set; \<open>notify_test_completed\<close> for the kind clears it. In every state in which the flag
  of a kind is set, a refresh hands a value that is not truthy to the Pass LED of the kind
  and \<open>False\<close> to its Fail LED, whatever the stored verdict. A refresh right after the
  constructor hands \<open>False\<close> to all four Pass and Fail LEDs.
\<close>

theorem scheduled_until_first_completion:
  "(do_calls calls (Hardware_init world) = Some hw \<and>
    (\<forall>result. NotifyTestCompleted kind result \<notin> set calls) \<longrightarrow>
      scheduled_test kind (test_state hw) \<and>
      \<not> truthy (leds (update_leds hw) (pass_led kind)) \<and>
      leds (update_leds hw) (fail_led kind) = Some False) \<and>
   (scheduled_test kind (test_state hw1) \<longrightarrow>
      \<not> truthy (leds (update_leds hw1) (pass_led kind)) \<and>
      leds (update_leds hw1) (fail_led kind) = Some False) \<and>
   \<not> scheduled_test kind (test_state (Hardware_notify_test_completed kind result hw2)) \<and>
   leds (update_leds (Hardware_init world)) NORMAL_PASS = Some False \<and>
   leds (update_leds (Hardware_init world)) NORMAL_FAIL = Some False \<and>
   leds (update_leds (Hardware_init world)) EXTENDED_PASS = Some False \<and>
   leds (update_leds (Hardware_init world)) EXTENDED_FAIL = Some False"
proof -
  have "scheduled_test kind (test_state hw)"
    if "do_calls calls (Hardware_init world) = Some hw"
       "\<forall>result. NotifyTestCompleted kind result \<notin> set calls"
    using that init_scheduled by (rule do_calls_scheduled)
  then show ?thesis
    using scheduled_leds_off [of kind hw] scheduled_leds_off [of kind hw1]
          notify_test_completed_same [of kind result hw2]
    by (simp add: init_leds_off)
qed


theorem scheduled_until_first_completion_witness:
  "scheduled_test NORMAL
     (test_state (Hardware_notify_test_completed EXTENDED Fail
                    (update (Hardware_notify_test_started NORMAL (Hardware_init quiet_world))))) \<and>
   \<not> truthy (leds (update_leds (Hardware_notify_test_completed EXTENDED Fail
                    (update (Hardware_notify_test_started NORMAL (Hardware_init quiet_world)))))
                (pass_led NORMAL)) \<and>
   leds (update_leds (Hardware_notify_test_completed EXTENDED Fail
                    (update (Hardware_notify_test_started NORMAL (Hardware_init quiet_world)))))
        (fail_led NORMAL) = Some False \<and>
   \<not> truthy (leds (update_leds (Hardware_init quiet_world)) (pass_led NORMAL)) \<and>
   leds (update_leds (Hardware_init quiet_world)) (fail_led NORMAL) = Some False \<and>
   \<not> scheduled_test NORMAL
       (test_state (Hardware_notify_test_completed NORMAL Pass (Hardware_init quiet_world))) \<and>
   leds (update_leds (Hardware_init quiet_world)) NORMAL_PASS = Some False \<and>
   leds (update_leds (Hardware_init quiet_world)) NORMAL_FAIL = Some False \<and>
   leds (update_leds (Hardware_init quiet_world)) EXTENDED_PASS = Some False \<and>
   leds (update_leds (Hardware_init quiet_world)) EXTENDED_FAIL = Some False"
proof -
  have run: "do_calls [NotifyTestStarted NORMAL, Update, NotifyTestCompleted EXTENDED Fail]
               (Hardware_init quiet_world) =
             Some (Hardware_notify_test_completed EXTENDED Fail
                    (update (Hardware_notify_test_started NORMAL (Hardware_init quiet_world))))"
    by (simp add: do_call_def)
  have none: "\<forall>result. NotifyTestCompleted NORMAL result \<notin>
                set [NotifyTestStarted NORMAL, Update, NotifyTestCompleted EXTENDED Fail]"
    by simp
  have sch: "scheduled_test NORMAL (test_state (Hardware_init quiet_world))"
    by (simp add: scheduled_test_def Hardware_init_def TestState_init_def)
  show ?thesis
    using scheduled_until_first_completion
      [of "[NotifyTestStarted NORMAL, Update, NotifyTestCompleted EXTENDED Fail]" quiet_world
          "Hardware_notify_test_completed EXTENDED Fail
             (update (Hardware_notify_test_started NORMAL (Hardware_init quiet_world)))"
          NORMAL "Hardware_init quiet_world" Pass "Hardware_init quiet_world"]
      run none sch
    by simp
qed

section \<open>The leaf checks\<close>

text \<open>
  C9, at the DNS check. When the resolver fails, \<open>DnsCheck.check\<close> returns normally with
  the value \<open>"False"\<close>, and the verdict of its one column is Unknown, not Fail: the overall
  verdict of the DNS check alone is Unknown.
\<close>

theorem DnsCheck_failure_verdict:
  "check (DnsCheck resolver_down ''google.com'' 10) s = ((''False'', [Unknown]), s) \<and>
   reduce_results (snd (fst (check (DnsCheck resolver_down ''google.com'' 10) s))) = Unknown"
  by (simp add: DnsCheck_check resolver_down_def reduce_results_def combine_results_simps)

section \<open>The rows of the report\<close>

lemma str_split_length: "length (str_split sep s) = Suc (length (filter (\<lambda>c. c = sep) s))"
  by (induction s) (auto split: list.splits)

lemma str_split_not_Nil [simp]: "str_split sep s \<noteq> []"
  using str_split_length [of sep s] by auto

lemma str_split_append:
  "str_split sep (a @ sep # b) = str_split sep a @ str_split sep b"
  by (induction a) (auto split: list.splits)

lemma num_fields_append:
  "num_fields (a @ CHR '','' # b) = num_fields a + num_fields b"
  by (simp add: num_fields_def str_split_append)

lemma str_join_replicate_empty:
  "str_join sep (replicate (Suc n) []) = concat (replicate n sep)"
  by (induction n) simp_all

lemma str_split_commas: "str_split CHR '','' (replicate n CHR '','') = replicate (Suc n) []"
  by (induction n) simp_all

lemma skip_extended_fields:
  "0 < n \<Longrightarrow> str_split CHR '','' (str_join '','' (replicate n [])) = replicate n []"
proof -
  assume "0 < n"
  then obtain m where n: "n = Suc m" by (cases n) auto
  have "concat (replicate m '','') = replicate m CHR '',''"
    by (induction m) simp_all
  then show ?thesis
    by (simp only: n str_join_replicate_empty str_split_commas)
qed

lemma num_fields_pos: "0 < num_fields s"
  by (simp add: num_fields_def)

lemma num_fields_str_join:
  "xs \<noteq> [] \<Longrightarrow> num_fields (str_join '','' xs) = sum_list (map num_fields xs)"
proof (induction xs rule: induct_list012)
  case 1
  then show ?case by simp
next
  case (2 x)
  then show ?case by simp
next
  case (3 x y zs)
  then show ?case
    by (simp add: num_fields_append)
qed

lemma run_checks_Cons:
  "run_checks (c # cs) s =
     (fst (check c s) # fst (run_checks cs (snd (check c s))),
      snd (run_checks cs (snd (check c s))))"
  by (simp add: Let_def case_prod_beta)

lemma run_checks_fields:
  "\<forall>c \<in> set checks. \<forall>s. num_fields (fst (fst (check c s))) = num_columns c \<Longrightarrow>
   map num_fields (map fst (fst (run_checks checks s))) = map num_columns checks"
  by (induction checks arbitrary: s) (simp_all add: run_checks_Cons del: run_checks.simps(2))

lemma run_checks_length: "length (fst (run_checks checks s)) = length checks"
  by (induction checks arbitrary: s) (simp_all add: run_checks_Cons del: run_checks.simps(2))

lemma MultipleChecks_check:
  "check (MultipleChecks checks) s =
     ((str_join '','' (map fst (fst (run_checks checks s))), concat (map snd (fst (run_checks checks s)))),
      snd (run_checks checks s))"
  by (simp add: MultipleChecks_def combine_checks_def Let_def case_prod_beta)

lemma MultipleChecks_num_fields:
  assumes "checks \<noteq> []"
      and "\<forall>c \<in> set checks. \<forall>s. num_fields (fst (fst (check c s))) = num_columns c"
  shows "num_fields (fst (fst (check (MultipleChecks checks) s))) = num_columns (MultipleChecks checks)"
proof -
  have "fst (run_checks checks s) \<noteq> []"
    using run_checks_length [of checks s] assms(1) by auto
  then have "num_fields (str_join '','' (map fst (fst (run_checks checks s)))) =
             sum_list (map num_fields (map fst (fst (run_checks checks s))))"
    by (simp add: num_fields_str_join)
  also have "\<dots> = sum_list (map num_columns checks)"
    by (simp only: run_checks_fields [OF assms(2)])
  finally show ?thesis
    by (simp add: MultipleChecks_check) (simp add: MultipleChecks_def)
qed

lemma normal_check_eq:
  "normal_check self s0 =
     (let s1 = fold (\<lambda>observer. notify_test_started observer NORMAL) (test_observers self) s0;
          results = fst (check (normal_checks self) s1);
          s2 = snd (check (normal_checks self) s1)
      in (fst results @ '','' @ str_join '','' (replicate (num_columns (extended_checks self)) []),
          fold (\<lambda>observer. notify_test_completed observer NORMAL (reduce_results (snd results)))
            (test_observers self) s2))"
  by (simp add: normal_check_def Let_def case_prod_beta)

lemma extended_check_eq:
  "extended_check self s0 =
     (let normal_results = fst (check (normal_checks self) s0);
          s1 = snd (check (normal_checks self) s0);
          s2 = fold (\<lambda>observer s. notify_test_started observer EXTENDED
                                     (notify_test_started observer NORMAL s))
                 (test_observers self) s1;
          extended_results = fst (check (extended_checks self) s2);
          s3 = snd (check (extended_checks self) s2)
      in (fst normal_results @ '','' @ fst extended_results,
          fold (\<lambda>observer s. notify_test_completed observer EXTENDED
                                  (reduce_results (snd extended_results))
                                  (notify_test_completed observer NORMAL
                                     (reduce_results (snd normal_results)) s))
            (test_observers self) s3))"
  by (simp add: extended_check_def Let_def case_prod_beta)

text \<open>
  C6. If the value string of the normal checks always has as many comma-separated fields as
  the normal checks have columns, and likewise for the extended checks, then the string
  that \<open>normal_check\<close> returns and the string that \<open>extended_check\<close> returns each have
  as many fields as the normal and the extended checks have columns together, and in the
  string of \<open>normal_check\<close> the fields after those of the normal checks are empty, one for
  each column of the extended checks. A composite of at least one check inherits the
  hypothesis from its children (\<open>MultipleChecks_num_fields\<close>).
\<close>

theorem row_arity:
  assumes normal: "\<forall>s. num_fields (fst (fst (check (normal_checks self) s))) = num_columns (normal_checks self)"
      and extended: "\<forall>s. num_fields (fst (fst (check (extended_checks self) s))) = num_columns (extended_checks self)"
  shows "num_fields (fst (normal_check self s)) = checks_num_columns self \<and>
         num_fields (fst (extended_check self s)) = checks_num_columns self \<and>
         drop (num_columns (normal_checks self)) (str_split CHR '','' (fst (normal_check self s))) =
           replicate (num_columns (extended_checks self)) []"
proof -
  have pos: "0 < num_columns (extended_checks self)"
    using extended num_fields_pos [of "fst (fst (check (extended_checks self) s))"] by simp
  define s1 where "s1 = fold (\<lambda>observer. notify_test_started observer NORMAL) (test_observers self) s"
  define results where "results = fst (check (normal_checks self) s1)"
  have n: "length (str_split CHR '','' (fst results)) = num_columns (normal_checks self)"
    using normal by (simp add: results_def num_fields_def)
  have fields: "str_split CHR '','' (fst (normal_check self s)) =
                 str_split CHR '','' (fst results) @ replicate (num_columns (extended_checks self)) []"
    by (simp add: normal_check_eq Let_def s1_def results_def str_split_append skip_extended_fields [OF pos])
  have "num_fields (fst (normal_check self s)) = checks_num_columns self"
    by (simp add: num_fields_def fields n checks_num_columns_def)
  moreover have "num_fields (fst (extended_check self s)) = checks_num_columns self"
    using normal extended
    by (simp add: extended_check_eq Let_def num_fields_append checks_num_columns_def)
  moreover have "drop (num_columns (normal_checks self)) (str_split CHR '','' (fst (normal_check self s))) =
           replicate (num_columns (extended_checks self)) []"
    by (simp add: fields n)
  ultimately show ?thesis by simp
qed

theorem row_arity_witness:
  "num_fields (fst (normal_check dns_only_checks (Hardware_init quiet_world))) =
     checks_num_columns dns_only_checks \<and>
   num_fields (fst (extended_check dns_only_checks (Hardware_init quiet_world))) =
     checks_num_columns dns_only_checks \<and>
   drop (num_columns (normal_checks dns_only_checks))
     (str_split CHR '','' (fst (normal_check dns_only_checks (Hardware_init quiet_world)))) =
     replicate (num_columns (extended_checks dns_only_checks)) []"
proof -
  have normal: "\<forall>s. num_fields (fst (fst (check (normal_checks dns_only_checks) s))) =
                    num_columns (normal_checks dns_only_checks)"
    by (simp add: dns_only_checks_def MultipleChecks_check DnsCheck_check resolver_up_def num_fields_def)
       (simp add: MultipleChecks_def DnsCheck_def)
  have extended: "\<forall>s. num_fields (fst (fst (check (extended_checks dns_only_checks) s))) =
                      num_columns (extended_checks dns_only_checks)"
    by (simp add: dns_only_checks_def MultipleChecks_check DnsCheck_check resolver_up_def num_fields_def)
       (simp add: MultipleChecks_def DnsCheck_def)
  show ?thesis
    using row_arity [OF normal extended, of "Hardware_init quiet_world"] by simp
qed

section \<open>The order of an extended check\<close>

lemma fold_logged_started:
  "fold (\<lambda>observer. notify_test_started observer test_type) (map logged_observer is) tr =
   tr @ map (\<lambda>i. TestStarted i test_type) is"
  by (induction "is" arbitrary: tr) (simp_all add: logged_observer_def)

lemma fold_logged_completed:
  "fold (\<lambda>observer. notify_test_completed observer test_type result) (map logged_observer is) tr =
   tr @ map (\<lambda>i. TestCompleted i test_type result) is"
  by (induction "is" arbitrary: tr) (simp_all add: logged_observer_def)

lemma fold_logged_started_both:
  "fold (\<lambda>observer s. notify_test_started observer EXTENDED (notify_test_started observer NORMAL s))
     (map logged_observer is) tr =
   tr @ concat (map (\<lambda>i. [TestStarted i NORMAL, TestStarted i EXTENDED]) is)"
  by (induction "is" arbitrary: tr) (simp_all add: logged_observer_def)

lemma fold_logged_completed_both:
  "fold (\<lambda>observer s. notify_test_completed observer EXTENDED extended_result
                        (notify_test_completed observer NORMAL normal_result s))
     (map logged_observer is) tr =
   tr @ concat (map (\<lambda>i. [TestCompleted i NORMAL normal_result,
                             TestCompleted i EXTENDED extended_result]) is)"
  by (induction "is" arbitrary: tr) (simp_all add: logged_observer_def)

text \<open>
  C7. \<open>extended_check\<close> runs the normal checks first, before any notification; then every
  observer in turn is told that the normal test and then that the extended test started;
  then the extended checks run; then every observer in turn is told that the normal test
  completed with the folded verdict of the normal checks and then that the extended test
  completed with the folded verdict of the extended checks; the result is the value string
  of the normal checks, a comma and the value string of the extended checks. In
  \<open>normal_check\<close> the observers are told that the normal test started before the normal
  checks run.
\<close>

theorem extended_check_order:
  "extended_check (logged_checks normal_result extended_result n) tr =
     (let normal_results = normal_result tr;
          tr1 = tr @ [CheckRun NORMAL];
          tr2 = tr1 @ concat (map (\<lambda>i. [TestStarted i NORMAL, TestStarted i EXTENDED]) [0..<n]);
          extended_results = extended_result tr2;
          tr3 = tr2 @ [CheckRun EXTENDED];
          tr4 = tr3 @ concat (map (\<lambda>i. [TestCompleted i NORMAL (reduce_results (snd normal_results)),
                                            TestCompleted i EXTENDED (reduce_results (snd extended_results))])
                                 [0..<n])
      in (fst normal_results @ '','' @ fst extended_results, tr4)) \<and>
   snd (normal_check (logged_checks normal_result extended_result n) tr) =
     (let tr1 = tr @ map (\<lambda>i. TestStarted i NORMAL) [0..<n];
          normal_results = normal_result tr1;
          tr2 = tr1 @ [CheckRun NORMAL]
      in tr2 @ map (\<lambda>i. TestCompleted i NORMAL (reduce_results (snd normal_results))) [0..<n])"
  by (simp add: extended_check_eq normal_check_eq logged_checks_def logged_check_def Let_def
      fold_logged_started fold_logged_completed fold_logged_started_both fold_logged_completed_both)

theorem extended_check_order_witness:
  "extended_check (logged_checks (\<lambda>tr. (''12.5'', [Pass])) (\<lambda>tr. (''-1,-1,-1,N/A'', [Fail, Fail, Fail, Unknown])) 2) [] =
     (''12.5,-1,-1,-1,N/A'',
      [CheckRun NORMAL,
       TestStarted 0 NORMAL, TestStarted 0 EXTENDED, TestStarted 1 NORMAL, TestStarted 1 EXTENDED,
       CheckRun EXTENDED,
       TestCompleted 0 NORMAL Pass, TestCompleted 0 EXTENDED Fail,
       TestCompleted 1 NORMAL Pass, TestCompleted 1 EXTENDED Fail]) \<and>
   snd (normal_check (logged_checks (\<lambda>tr. (''12.5'', [Pass])) (\<lambda>tr. (''-1,-1,-1,N/A'', [Fail, Fail, Fail, Unknown])) 2) []) =
     [TestStarted 0 NORMAL, TestStarted 1 NORMAL, CheckRun NORMAL,
      TestCompleted 0 NORMAL Pass, TestCompleted 1 NORMAL Pass]"
  using extended_check_order [of "\<lambda>tr. (''12.5'', [Pass])" "\<lambda>tr. (''-1,-1,-1,N/A'', [Fail, Fail, Fail, Unknown])" 2 "[]"]
  by (simp add: Let_def reduce_results_def combine_results_simps upt_rec)

section \<open>The button\<close>

lemma get_user_input_loop_Return:
  "get_user_input_round timeout_time user_input_time hw = Return user_input hw' \<Longrightarrow>
   get_user_input_loop timeout_time user_input_time hw = Some (user_input, hw')"
  by (subst get_user_input_loop.simps) simp

lemma get_user_input_loop_Continue:
  "get_user_input_round timeout_time user_input_time hw = Continue user_input_time' hw' \<Longrightarrow>
   get_user_input_loop timeout_time user_input_time hw =
   get_user_input_loop timeout_time user_input_time' hw'"
  by (subst get_user_input_loop.simps) simp

lemma get_user_input_eq:
  "get_user_input timeout hw =
   get_user_input_loop (float_add (shd (clock hw)) timeout) None (hw\<lparr>clock := stl (clock hw)\<rparr>)"
  by (simp add: get_user_input_def time_time_def Let_def)

lemma idle_rounds:
  "\<forall>t \<in> set ts. t < timeout_time \<Longrightarrow>
   clock hw = ts @- c \<Longrightarrow>
   run_test_button hw = replicate (length ts) False @- b \<Longrightarrow>
   get_user_input_loop timeout_time None hw =
   get_user_input_loop timeout_time None (hw\<lparr>clock := c, run_test_button := b\<rparr>)"
proof (induction ts arbitrary: hw)
  case Nil
  then have "hw\<lparr>clock := c, run_test_button := b\<rparr> = hw" by simp
  then show ?case by simp
next
  case (Cons t ts)
  have round: "get_user_input_round timeout_time None hw =
          Continue None (hw\<lparr>run_test_button := replicate (length ts) False @- b, clock := ts @- c\<rparr>)"
    using Cons.prems by (simp add: get_user_input_round_eq)
  have "get_user_input_loop timeout_time None
          (hw\<lparr>run_test_button := replicate (length ts) False @- b, clock := ts @- c\<rparr>) =
        get_user_input_loop timeout_time None
          (hw\<lparr>run_test_button := replicate (length ts) False @- b, clock := ts @- c\<rparr>
             \<lparr>clock := c, run_test_button := b\<rparr>)"
    using Cons.prems by (intro Cons.IH) simp_all
  then show ?case
    by (simp add: get_user_input_loop_Continue [OF round])
qed

lemma held_rounds:
  "\<forall>t \<in> set ts. t < float_add pushed 3 \<Longrightarrow>
   clock hw = ts @- c \<Longrightarrow>
   run_test_button hw = replicate (length ts) True @- b \<Longrightarrow>
   get_user_input_loop timeout_time (Some pushed) hw =
   get_user_input_loop timeout_time (Some pushed) (hw\<lparr>clock := c, run_test_button := b\<rparr>)"
proof (induction ts arbitrary: hw)
  case Nil
  then have "hw\<lparr>clock := c, run_test_button := b\<rparr> = hw" by simp
  then show ?case by simp
next
  case (Cons t ts)
  have round: "get_user_input_round timeout_time (Some pushed) hw =
          Continue (Some pushed) (hw\<lparr>run_test_button := replicate (length ts) True @- b, clock := ts @- c\<rparr>)"
    using Cons.prems by (simp add: get_user_input_round_eq)
  have "get_user_input_loop timeout_time (Some pushed)
          (hw\<lparr>run_test_button := replicate (length ts) True @- b, clock := ts @- c\<rparr>) =
        get_user_input_loop timeout_time (Some pushed)
          (hw\<lparr>run_test_button := replicate (length ts) True @- b, clock := ts @- c\<rparr>
             \<lparr>clock := c, run_test_button := b\<rparr>)"
    using Cons.prems by (intro Cons.IH) simp_all
  then show ?case
    by (simp add: get_user_input_loop_Continue [OF round])
qed


lemma no_input:
  assumes "clock hw = t_start ## (idle @- (t_end ## c))"
      and "run_test_button hw = replicate (length idle) False @- (False ## b)"
      and "\<forall>t \<in> set idle. t < float_add t_start timeout"
      and "float_add t_start timeout \<le> t_end"
  shows "get_user_input timeout hw = Some (NO_INPUT, hw\<lparr>clock := c, run_test_button := b\<rparr>)"
proof -
  let ?hw1 = "hw\<lparr>clock := stl (clock hw)\<rparr>"
  let ?hw2 = "?hw1\<lparr>clock := t_end ## c, run_test_button := False ## b\<rparr>"
  have "get_user_input timeout hw = get_user_input_loop (float_add t_start timeout) None ?hw1"
    using assms(1) by (simp add: get_user_input_eq)
  also have "\<dots> = get_user_input_loop (float_add t_start timeout) None ?hw2"
    using assms by (intro idle_rounds [where ts = idle]) simp_all
  also have "\<dots> = Some (NO_INPUT, hw\<lparr>clock := c, run_test_button := b\<rparr>)"
    using assms(4) by (intro get_user_input_loop_Return) (simp add: get_user_input_round_eq)
  finally show ?thesis .
qed

lemma pushed:
  assumes "clock hw = t_start ## (idle @- (t_push ## c))"
      and "run_test_button hw = replicate (length idle) False @- (True ## b)"
      and "\<forall>t \<in> set idle. t < float_add t_start timeout"
  shows "get_user_input timeout hw =
         get_user_input_loop (float_add t_start timeout) (Some t_push)
           (update_leds (hw\<lparr>run_test_button := b, clock := c,
                            test_state := (test_state hw)\<lparr>scheduled_normal_test := True\<rparr>\<rparr>))"
proof -
  let ?hw1 = "hw\<lparr>clock := stl (clock hw)\<rparr>"
  let ?hw2 = "?hw1\<lparr>clock := t_push ## c, run_test_button := True ## b\<rparr>"
  have "get_user_input timeout hw = get_user_input_loop (float_add t_start timeout) None ?hw1"
    using assms(1) by (simp add: get_user_input_eq)
  also have "\<dots> = get_user_input_loop (float_add t_start timeout) None ?hw2"
    using assms by (intro idle_rounds [where ts = idle]) simp_all
  also have "\<dots> = get_user_input_loop (float_add t_start timeout) (Some t_push)
           (update_leds (hw\<lparr>run_test_button := b, clock := c,
                            test_state := (test_state hw)\<lparr>scheduled_normal_test := True\<rparr>\<rparr>))"
    by (intro get_user_input_loop_Continue) (simp add: get_user_input_round_eq)
  finally show ?thesis .
qed

lemma released:
  assumes "clock hw = held @- c"
      and "run_test_button hw = replicate (length held) True @- (False ## b)"
      and "\<forall>t \<in> set held. t < float_add t_push 3"
  shows "get_user_input_loop timeout_time (Some t_push) hw =
         Some (NORMAL_TEST, hw\<lparr>clock := c, run_test_button := b\<rparr>)"
proof -
  let ?hw2 = "hw\<lparr>clock := c, run_test_button := False ## b\<rparr>"
  have "get_user_input_loop timeout_time (Some t_push) hw =
        get_user_input_loop timeout_time (Some t_push) ?hw2"
    using assms by (intro held_rounds [where ts = held]) simp_all
  also have "\<dots> = Some (NORMAL_TEST, hw\<lparr>clock := c, run_test_button := b\<rparr>)"
    by (intro get_user_input_loop_Return) (simp add: get_user_input_round_eq)
  finally show ?thesis .
qed

lemma held_long:
  assumes "clock hw = held @- (t_hold ## c)"
      and "run_test_button hw = replicate (length held) True @- (True ## b)"
      and "\<forall>t \<in> set held. t < float_add t_push 3"
      and "float_add t_push 3 \<le> t_hold"
  shows "get_user_input_loop timeout_time (Some t_push) hw =
         Some (EXTENDED_TEST,
               update_leds (hw\<lparr>run_test_button := b, clock := c,
                               test_state := (test_state hw)\<lparr>scheduled_extended_test := True\<rparr>\<rparr>))"
proof -
  let ?hw2 = "hw\<lparr>clock := t_hold ## c, run_test_button := True ## b\<rparr>"
  have "get_user_input_loop timeout_time (Some t_push) hw =
        get_user_input_loop timeout_time (Some t_push) ?hw2"
    using assms by (intro held_rounds [where ts = held]) simp_all
  also have "\<dots> = Some (EXTENDED_TEST,
               update_leds (hw\<lparr>run_test_button := b, clock := c,
                               test_state := (test_state hw)\<lparr>scheduled_extended_test := True\<rparr>\<rparr>))"
    using assms(4) by (intro get_user_input_loop_Return) (simp add: get_user_input_round_eq)
  finally show ?thesis .
qed


text \<open>
  C2. With the hold threshold of 3 s, for the readings of the clock and of the button that a
  run of \<open>get_user_input timeout\<close> makes:
  \<^item> if the button is not pushed in any round until a round reads a time at or after the
    timeout, the run returns \<open>NO_INPUT\<close>;
  \<^item> if, after rounds without a push and before the timeout, a round finds the button
    pushed, and after rounds that find it held before the push time plus 3 s a round finds
    it released, the run returns \<open>NORMAL_TEST\<close>, with \<open>scheduled_normal_test\<close> set;
  \<^item> if instead the button is still held in a round that reads a time at or after the
    push time plus 3 s, the run sets \<open>scheduled_extended_test\<close>, refreshes the LEDs in
    the state with the flag set and then returns \<open>EXTENDED_TEST\<close>;
  \<^item> a round that finds the button pushed for the first time sets
    \<open>scheduled_normal_test\<close>, refreshes the LEDs and goes on polling with the push time.
  The timeout is the first reading of the clock plus \<open>timeout\<close>, and the push time plus
  3 s is the sum of the two, both as floating point arithmetic forms them.
\<close>

theorem get_user_input_classification:
  "(clock hw = t_start ## (idle @- (t_end ## c)) \<and>
    run_test_button hw = replicate (length idle) False @- (False ## b) \<and>
    (\<forall>t \<in> set idle. t < float_add t_start timeout) \<and> float_add t_start timeout \<le> t_end \<longrightarrow>
      get_user_input timeout hw = Some (NO_INPUT, hw\<lparr>clock := c, run_test_button := b\<rparr>)) \<and>
   (clock hw = t_start ## (idle @- (t_push ## ra ## rb ## rc ## (held @- c))) \<and>
    run_test_button hw =
      replicate (length idle) False @- (True ## (replicate (length held) True @- (False ## b))) \<and>
    (\<forall>t \<in> set idle. t < float_add t_start timeout) \<and> (\<forall>t \<in> set held. t < float_add t_push 3) \<longrightarrow>
      (\<exists>hw'. get_user_input timeout hw = Some (NORMAL_TEST, hw') \<and>
             test_state hw' = (test_state hw)\<lparr>scheduled_normal_test := True\<rparr>)) \<and>
   (clock hw = t_start ## (idle @- (t_push ## ra ## rb ## rc ## (held @- (t_hold ## c)))) \<and>
    run_test_button hw =
      replicate (length idle) False @- (True ## (replicate (length held) True @- (True ## b))) \<and>
    (\<forall>t \<in> set idle. t < float_add t_start timeout) \<and> (\<forall>t \<in> set held. t < float_add t_push 3) \<and>
    float_add t_push 3 \<le> t_hold \<longrightarrow>
      (\<exists>hw3. get_user_input timeout hw = Some (EXTENDED_TEST, update_leds hw3) \<and>
             test_state hw3 = (test_state hw)\<lparr>scheduled_normal_test := True,
                                                scheduled_extended_test := True\<rparr>)) \<and>
   (shd (run_test_button hw) \<longrightarrow>
      get_user_input_round timeout_time None hw =
        Continue (Some (shd (clock hw)))
          (update_leds (hw\<lparr>run_test_button := stl (run_test_button hw), clock := stl (clock hw),
                           test_state := (test_state hw)\<lparr>scheduled_normal_test := True\<rparr>\<rparr>)))"
proof (intro conjI impI)
  assume a: "clock hw = t_start ## (idle @- (t_end ## c)) \<and>
    run_test_button hw = replicate (length idle) False @- (False ## b) \<and>
    (\<forall>t \<in> set idle. t < float_add t_start timeout) \<and> float_add t_start timeout \<le> t_end"
  show "get_user_input timeout hw = Some (NO_INPUT, hw\<lparr>clock := c, run_test_button := b\<rparr>)"
    by (rule no_input [where idle = idle and t_end = t_end and t_start = t_start]) (use a in blast)+
next
  assume a: "clock hw = t_start ## (idle @- (t_push ## ra ## rb ## rc ## (held @- c))) \<and>
    run_test_button hw =
      replicate (length idle) False @- (True ## (replicate (length held) True @- (False ## b))) \<and>
    (\<forall>t \<in> set idle. t < float_add t_start timeout) \<and> (\<forall>t \<in> set held. t < float_add t_push 3)"
  let ?p = "update_leds (hw\<lparr>run_test_button := replicate (length held) True @- (False ## b),
                              clock := ra ## rb ## rc ## (held @- c),
                              test_state := (test_state hw)\<lparr>scheduled_normal_test := True\<rparr>\<rparr>)"
  have "get_user_input timeout hw = get_user_input_loop (float_add t_start timeout) (Some t_push) ?p"
    by (rule pushed [where idle = idle]) (use a in blast)+
  also have "\<dots> = Some (NORMAL_TEST, ?p\<lparr>clock := c, run_test_button := b\<rparr>)"
  proof (rule released [where held = held])
    show "clock ?p = held @- c" by simp
    show "run_test_button ?p = replicate (length held) True @- (False ## b)" by simp
    show "\<forall>t \<in> set held. t < float_add t_push 3" using a by blast
  qed
  finally show "\<exists>hw'. get_user_input timeout hw = Some (NORMAL_TEST, hw') \<and>
             test_state hw' = (test_state hw)\<lparr>scheduled_normal_test := True\<rparr>"
    by simp
next
  assume a: "clock hw = t_start ## (idle @- (t_push ## ra ## rb ## rc ## (held @- (t_hold ## c)))) \<and>
    run_test_button hw =
      replicate (length idle) False @- (True ## (replicate (length held) True @- (True ## b))) \<and>
    (\<forall>t \<in> set idle. t < float_add t_start timeout) \<and> (\<forall>t \<in> set held. t < float_add t_push 3) \<and>
    float_add t_push 3 \<le> t_hold"
  let ?p = "update_leds (hw\<lparr>run_test_button := replicate (length held) True @- (True ## b),
                              clock := ra ## rb ## rc ## (held @- (t_hold ## c)),
                              test_state := (test_state hw)\<lparr>scheduled_normal_test := True\<rparr>\<rparr>)"
  let ?q = "?p\<lparr>run_test_button := b, clock := c,
                test_state := (test_state ?p)\<lparr>scheduled_extended_test := True\<rparr>\<rparr>"
  have "get_user_input timeout hw = get_user_input_loop (float_add t_start timeout) (Some t_push) ?p"
    by (rule pushed [where idle = idle]) (use a in blast)+
  also have "\<dots> = Some (EXTENDED_TEST, update_leds ?q)"
  proof (rule held_long [where held = held and t_hold = t_hold])
    show "clock ?p = held @- (t_hold ## c)" by simp
    show "run_test_button ?p = replicate (length held) True @- (True ## b)" by simp
    show "\<forall>t \<in> set held. t < float_add t_push 3" using a by blast
    show "float_add t_push 3 \<le> t_hold" using a by blast
  qed
  finally have "get_user_input timeout hw = Some (EXTENDED_TEST, update_leds ?q)" .
  moreover have "test_state ?q = (test_state hw)\<lparr>scheduled_normal_test := True,
                                                scheduled_extended_test := True\<rparr>"
    by simp
  ultimately show "\<exists>hw3. get_user_input timeout hw = Some (EXTENDED_TEST, update_leds hw3) \<and>
             test_state hw3 = (test_state hw)\<lparr>scheduled_normal_test := True,
                                                scheduled_extended_test := True\<rparr>"
    by blast
next
  assume "shd (run_test_button hw)"
  then show "get_user_input_round timeout_time None hw =
        Continue (Some (shd (clock hw)))
          (update_leds (hw\<lparr>run_test_button := stl (run_test_button hw), clock := stl (clock hw),
                           test_state := (test_state hw)\<lparr>scheduled_normal_test := True\<rparr>\<rparr>))"
    by (simp add: get_user_input_round_eq)
qed

theorem get_user_input_classification_witness:
  "get_user_input 1 no_push_hw =
     Some (NO_INPUT, no_push_hw\<lparr>clock := sconst 102, run_test_button := sconst False\<rparr>) \<and>
   (\<exists>hw'. get_user_input 1 short_push_hw = Some (NORMAL_TEST, hw') \<and>
          test_state hw' = (test_state short_push_hw)\<lparr>scheduled_normal_test := True\<rparr>) \<and>
   (\<exists>hw3. get_user_input 1 long_push_hw = Some (EXTENDED_TEST, update_leds hw3) \<and>
          test_state hw3 = (test_state long_push_hw)\<lparr>scheduled_normal_test := True,
                                                       scheduled_extended_test := True\<rparr>) \<and>
   get_user_input_round 101 None (long_push_hw\<lparr>clock := sconst 100, run_test_button := sconst True\<rparr>) =
     Continue (Some 100)
       (update_leds (long_push_hw\<lparr>clock := sconst 100, run_test_button := sconst True\<rparr>
          \<lparr>run_test_button := sconst True, clock := sconst 100,
           test_state := (test_state long_push_hw)\<lparr>scheduled_normal_test := True\<rparr>\<rparr>))"
proof -
  have a: "get_user_input 1 no_push_hw =
     Some (NO_INPUT, no_push_hw\<lparr>clock := sconst 102, run_test_button := sconst False\<rparr>)"
    using get_user_input_classification
      [where hw = no_push_hw and t_start = 100 and idle = "[100.5, 100.75]" and t_end = "101.25"
         and c = "sconst 102" and b = "sconst False" and timeout = 1]
    by (simp add: no_push_hw_def float_add_def float_round_numeral)
  have b: "\<exists>hw'. get_user_input 1 short_push_hw = Some (NORMAL_TEST, hw') \<and>
          test_state hw' = (test_state short_push_hw)\<lparr>scheduled_normal_test := True\<rparr>"
    using get_user_input_classification
      [where hw = short_push_hw and t_start = 99 and idle = "[99.5]" and t_push = 100
         and ra = 100 and rb = 100 and rc = 100 and held = "[100.25, 100.75]"
         and c = "sconst 101" and b = "sconst False" and timeout = 1]
    by (simp add: short_push_hw_def float_add_def float_round_numeral)
  have c: "\<exists>hw3. get_user_input 1 long_push_hw = Some (EXTENDED_TEST, update_leds hw3) \<and>
          test_state hw3 = (test_state long_push_hw)\<lparr>scheduled_normal_test := True,
                                                       scheduled_extended_test := True\<rparr>"
    using get_user_input_classification
      [where hw = long_push_hw and t_start = 99 and idle = "[99.5]" and t_push = 100
         and ra = 100 and rb = 100 and rc = 100 and held = "[101, 102]" and t_hold = "103.5"
         and c = "sconst 104" and b = "sconst True" and timeout = 1]
    by (simp add: long_push_hw_def float_add_def float_round_numeral)
  have d: "get_user_input_round 101 None (long_push_hw\<lparr>clock := sconst 100, run_test_button := sconst True\<rparr>) =
     Continue (Some 100)
       (update_leds (long_push_hw\<lparr>clock := sconst 100, run_test_button := sconst True\<rparr>
          \<lparr>run_test_button := sconst True, clock := sconst 100,
           test_state := (test_state long_push_hw)\<lparr>scheduled_normal_test := True\<rparr>\<rparr>))"
    using get_user_input_classification
      [where hw = "long_push_hw\<lparr>clock := sconst 100, run_test_button := sconst True\<rparr>"
         and timeout_time = 101]
    by simp
  from a b c d show ?thesis by blast
qed

section \<open>The report on standard output\<close>

lemma run_tests_eq:
  "run_tests checks (m, hw) =
     (let current_time = shd (clock hw);
          hw1 = hw\<lparr>clock := stl (clock hw)\<rparr>;
          time_str = shd (utc_now m)
      in if current_time \<ge> float_add (last_extended_test m) 3600
         then (m\<lparr>last_normal_test := current_time, utc_now := stl (utc_now m),
                  stdout := stdout m @ [''# time(utc),'' @ checks_column_names checks,
                                        time_str @ '','' @ fst (extended_check checks hw1)],
                  last_extended_test := current_time\<rparr>,
               snd (extended_check checks hw1))
         else if current_time \<ge> float_add (last_normal_test m) 60
         then (m\<lparr>last_normal_test := current_time, utc_now := stl (utc_now m),
                  stdout := stdout m @ [time_str @ '','' @ fst (normal_check checks hw1)]\<rparr>,
               snd (normal_check checks hw1))
         else (m, hw1))"
  by (simp add: run_tests_def time_time_def strftime_utc_now_def print_def Let_def case_prod_beta
      normal_test_interval_def extended_test_interval_def)

lemma main_cycle_stdout:
  assumes "main_cycle checks (m, hw) = Some (m', hw')"
  shows "stdout m' = stdout (fst (run_tests checks (m, hw)))"
  using assms
  by (auto simp add: main_cycle_def case_prod_beta split: option.splits UserInput.splits)

lemma notify_test_started_world:
  "clock (Hardware_notify_test_started test_type hw) = stl (stl (stl (stl (clock hw))))"
  "run_test_button (Hardware_notify_test_started test_type hw) = run_test_button hw"
  by (cases test_type; simp add: Hardware_notify_test_started_def time_time_def Let_def)+

lemma notify_test_completed_world:
  "clock (Hardware_notify_test_completed test_type result hw) =
     (if truthy result then stl (stl (stl (clock hw))) else stl (stl (stl (stl (clock hw)))))"
  "run_test_button (Hardware_notify_test_completed test_type result hw) = run_test_button hw"
  by (cases test_type; simp add: Hardware_notify_test_completed_def time_time_def Let_def)+

lemma dns_only_extended_check:
  "fst (extended_check dns_only_checks hw) = ''True,True''"
  "clock (snd (extended_check dns_only_checks hw)) = sdrop 16 (clock hw)"
  "run_test_button (snd (extended_check dns_only_checks hw)) = run_test_button hw"
  by (simp_all add: extended_check_eq dns_only_checks_def MultipleChecks_check DnsCheck_check
      resolver_up_def Hardware_observer_def Let_def reduce_results_def combine_results_simps
      notify_test_started_world notify_test_completed_world truthy_def numeral_eq_Suc)


lemma get_user_input_held_down:
  assumes "run_test_button hw = sconst True"
      and "clock hw = siterate (\<lambda>t. t + 1) x"
      and "float_add (x + 1) 3 \<le> x + 5"
  shows "\<exists>hw'. get_user_input timeout hw = Some (EXTENDED_TEST, hw') \<and>
               run_test_button hw' = sconst True \<and>
               clock hw' = siterate (\<lambda>t. t + 1) (x + 9)"
proof -
  let ?hw1 = "hw\<lparr>clock := stl (clock hw)\<rparr>"
  let ?hw2 = "update_leds (?hw1\<lparr>run_test_button := stl (run_test_button ?hw1),
                                clock := stl (clock ?hw1),
                                test_state := (test_state ?hw1)\<lparr>scheduled_normal_test := True\<rparr>\<rparr>)"
  let ?hw3 = "update_leds (?hw2\<lparr>run_test_button := stl (run_test_button ?hw2),
                                clock := stl (clock ?hw2),
                                test_state := (test_state ?hw2)\<lparr>scheduled_extended_test := True\<rparr>\<rparr>)"
  have "get_user_input timeout hw = get_user_input_loop (float_add x timeout) None ?hw1"
    using assms by (simp add: get_user_input_eq)
  also have "\<dots> = get_user_input_loop (float_add x timeout) (Some (x + 1)) ?hw2"
    using assms by (intro get_user_input_loop_Continue) (simp add: get_user_input_round_eq)
  also have "\<dots> = Some (EXTENDED_TEST, ?hw3)"
    using assms by (intro get_user_input_loop_Return) (simp add: get_user_input_round_eq)
  finally have "get_user_input timeout hw = Some (EXTENDED_TEST, ?hw3)" .
  moreover have "run_test_button ?hw3 = sconst True"
    using assms by simp
  moreover have "clock ?hw3 = siterate (\<lambda>t. t + 1) (x + 9)"
    using assms by (simp add: add.commute)
  ultimately show ?thesis by blast
qed

lemma main_cycle_held_down:
  assumes "run_test_button hw = sconst True"
      and "clock hw = siterate (\<lambda>t. t + 1) x"
      and "float_add (last_extended_test m) 3600 \<le> x"
      and "float_add (x + 17 + 1) 3 \<le> x + 17 + 5"
  shows "\<exists>m' hw'. main_cycle dns_only_checks (m, hw) = Some (m', hw') \<and>
               run_test_button hw' = sconst True \<and>
               clock hw' = siterate (\<lambda>t. t + 1) (x + 26) \<and>
               last_extended_test m' = 0 \<and>
               utc_now m' = stl (utc_now m) \<and>
               stdout m' = stdout m @
                 [''# time(utc),DNS resolution check for google.com,DNS resolution check for example.org'',
                  shd (utc_now m) @ '',True,True'']"
proof -
  let ?hw1 = "hw\<lparr>clock := stl (clock hw)\<rparr>"
  let ?hw2 = "snd (extended_check dns_only_checks ?hw1)"
  let ?m1 = "m\<lparr>last_normal_test := x, utc_now := stl (utc_now m),
                stdout := stdout m @
                  [''# time(utc),'' @ checks_column_names dns_only_checks,
                   shd (utc_now m) @ '','' @ fst (extended_check dns_only_checks ?hw1)],
                last_extended_test := x\<rparr>"
  have run: "run_tests dns_only_checks (m, hw) = (?m1, ?hw2)"
    using assms by (simp add: run_tests_eq Let_def)
  have "run_test_button ?hw2 = sconst True" "clock ?hw2 = siterate (\<lambda>t. t + 1) (x + 17)"
    using assms by (simp_all add: dns_only_extended_check numeral_eq_Suc add.commute)
  from get_user_input_held_down [OF this assms(4), of user_input_timeout]
  obtain hw' where input: "get_user_input user_input_timeout ?hw2 = Some (EXTENDED_TEST, hw')"
    and world: "run_test_button hw' = sconst True" "clock hw' = siterate (\<lambda>t. t + 1) (x + 17 + 9)"
    by blast
  have "main_cycle dns_only_checks (m, hw) =
          Some (?m1\<lparr>last_normal_test := 0, last_extended_test := 0\<rparr>, hw')"
    by (simp add: main_cycle_def run input)
  moreover have "checks_column_names dns_only_checks =
                   ''DNS resolution check for google.com,DNS resolution check for example.org''"
    by (simp add: checks_column_names_def dns_only_checks_def MultipleChecks_def DnsCheck_def)
  ultimately show ?thesis
    using world by (simp add: dns_only_extended_check add.commute)
qed

text \<open>
  C8, as the code has it. A round of the outer loop that runs the extended test prints the
  header line, made of the column names of the normal and of the extended checks, and
  right after it the data row of the test; a round that runs the normal test prints only
  its data row; any other round prints nothing. So the header is printed once for every
  extended test, for the first time right before the first one. A test is due when the
  clock has reached the time of the last one plus the interval, a floating point sum.
\<close>

theorem header_before_each_extended_row:
  "main_cycle checks (m, hw) = Some (m', hw') \<longrightarrow>
     stdout m' = stdout m @
       (if shd (clock hw) \<ge> float_add (last_extended_test m) extended_test_interval
        then [''# time(utc),'' @ column_names (normal_checks checks) @ '','' @
                column_names (extended_checks checks),
              shd (utc_now m) @ '','' @ fst (extended_check checks (hw\<lparr>clock := stl (clock hw)\<rparr>))]
        else if shd (clock hw) \<ge> float_add (last_normal_test m) normal_test_interval
        then [shd (utc_now m) @ '','' @ fst (normal_check checks (hw\<lparr>clock := stl (clock hw)\<rparr>))]
        else [])"
proof
  assume "main_cycle checks (m, hw) = Some (m', hw')"
  then have "stdout m' = stdout (fst (run_tests checks (m, hw)))"
    by (rule main_cycle_stdout)
  then show "stdout m' = stdout m @
       (if shd (clock hw) \<ge> float_add (last_extended_test m) extended_test_interval
        then [''# time(utc),'' @ column_names (normal_checks checks) @ '','' @
                column_names (extended_checks checks),
              shd (utc_now m) @ '','' @ fst (extended_check checks (hw\<lparr>clock := stl (clock hw)\<rparr>))]
        else if shd (clock hw) \<ge> float_add (last_normal_test m) normal_test_interval
        then [shd (utc_now m) @ '','' @ fst (normal_check checks (hw\<lparr>clock := stl (clock hw)\<rparr>))]
        else [])"
    by (simp add: run_tests_eq Let_def checks_column_names_def
        normal_test_interval_def extended_test_interval_def)
qed

theorem header_before_each_extended_row_witness:
  "\<exists>m' hw'.
     main_cycle dns_only_checks
       (\<lparr> last_normal_test = 0, last_extended_test = 0,
          utc_now = sconst ''2023-11-14T22:13:20Z'', stdout = [] \<rparr>,
        Hardware_init held_down_world) = Some (m', hw') \<and>
     stdout m' =
       [''# time(utc),DNS resolution check for google.com,DNS resolution check for example.org'',
        ''2023-11-14T22:13:20Z,True,True'']"
proof -
  let ?m = "\<lparr> last_normal_test = 0, last_extended_test = 0,
              utc_now = sconst ''2023-11-14T22:13:20Z'', stdout = [] \<rparr>"
  have "run_test_button (Hardware_init held_down_world) = sconst True"
       "clock (Hardware_init held_down_world) = siterate (\<lambda>t. t + 1) 1700000000"
       "float_add (last_extended_test ?m) 3600 \<le> 1700000000"
       "float_add (1700000000 + 17 + 1) 3 \<le> 1700000000 + 17 + 5"
    by (simp_all add: Hardware_init_def held_down_world_def float_add_def float_round_numeral)
  from main_cycle_held_down [OF this]
  obtain m' hw' where
    cycle: "main_cycle dns_only_checks (?m, Hardware_init held_down_world) = Some (m', hw')"
    by blast
  have names: "column_names (normal_checks dns_only_checks) = ''DNS resolution check for google.com''"
              "column_names (extended_checks dns_only_checks) = ''DNS resolution check for example.org''"
    by (simp_all add: dns_only_checks_def MultipleChecks_def DnsCheck_def)
  have "stdout m' =
       [''# time(utc),DNS resolution check for google.com,DNS resolution check for example.org'',
        ''2023-11-14T22:13:20Z,True,True'']"
    using header_before_each_extended_row
      [of dns_only_checks ?m "Hardware_init held_down_world" m' hw'] cycle
    by (simp add: Hardware_init_def held_down_world_def extended_test_interval_def
        dns_only_extended_check names float_add_def float_round_numeral)
  with cycle show ?thesis by blast
qed

text \<open>
  While the button is held down every round runs the extended test, and the header is
  printed again in the second round.
\<close>

theorem header_repeated_counterexample:
  "map_option (stdout \<circ> fst)
     (main (normal_checks dns_only_checks) (extended_checks dns_only_checks) 2
        (''2023-11-14T22:13:20Z'' ## sconst ''2023-11-14T22:13:46Z'') held_down_world) =
   Some [''# time(utc),DNS resolution check for google.com,DNS resolution check for example.org'',
         ''2023-11-14T22:13:20Z,True,True'',
         ''# time(utc),DNS resolution check for google.com,DNS resolution check for example.org'',
         ''2023-11-14T22:13:46Z,True,True'']"
proof -
  let ?m0 = "\<lparr> last_normal_test = 0, last_extended_test = 0,
               utc_now = ''2023-11-14T22:13:20Z'' ## sconst ''2023-11-14T22:13:46Z'',
               stdout = [] \<rparr>"
  have checks: "main_checks (normal_checks dns_only_checks) (extended_checks dns_only_checks) =
                dns_only_checks"
    by (simp add: main_checks_def dns_only_checks_def)
  have "run_test_button (Hardware_init held_down_world) = sconst True"
       "clock (Hardware_init held_down_world) = siterate (\<lambda>t. t + 1) 1700000000"
       "float_add (last_extended_test ?m0) 3600 \<le> 1700000000"
       "float_add (1700000000 + 17 + 1) 3 \<le> 1700000000 + 17 + 5"
    by (simp_all add: Hardware_init_def held_down_world_def float_add_def float_round_numeral)
  from main_cycle_held_down [OF this]
  obtain m1 hw1 where one: "main_cycle dns_only_checks (?m0, Hardware_init held_down_world) = Some (m1, hw1)"
    and w1: "run_test_button hw1 = sconst True" "clock hw1 = siterate (\<lambda>t. t + 1) (1700000000 + 26)"
    and m1: "last_extended_test m1 = 0" "utc_now m1 = stl (utc_now ?m0)"
            "stdout m1 = stdout ?m0 @
                 [''# time(utc),DNS resolution check for google.com,DNS resolution check for example.org'',
                  shd (utc_now ?m0) @ '',True,True'']"
    by blast
  have "float_add (last_extended_test m1) 3600 \<le> 1700000000 + 26"
       "float_add (1700000000 + 26 + 17 + 1) 3 \<le> 1700000000 + 26 + 17 + 5"
    using m1 by (simp_all add: float_add_def float_round_numeral)
  from main_cycle_held_down [OF w1 this]
  obtain m2 hw2 where two: "main_cycle dns_only_checks (m1, hw1) = Some (m2, hw2)"
    and m2: "stdout m2 = stdout m1 @
                 [''# time(utc),DNS resolution check for google.com,DNS resolution check for example.org'',
                  shd (utc_now m1) @ '',True,True'']"
    by blast
  have "main (normal_checks dns_only_checks) (extended_checks dns_only_checks) 2
          (''2023-11-14T22:13:20Z'' ## sconst ''2023-11-14T22:13:46Z'') held_down_world = Some (m2, hw2)"
    by (simp add: main_def checks numeral_2_eq_2 one two)
  then show ?thesis
    using m1 m2 by simp
qed

section \<open>The refresh and the shared state\<close>

text \<open>
  C10. Alone, a refresh computes its outputs from one state, and from one state the Pass
  and the Fail LED of the normal test are never both lit. Beside a thread that reports
  the failure of the normal test, after an earlier test that passed, the refresh lights
  the Pass LED from the state before the notification and the Fail LED from the state
  after it.
\<close>

theorem refresh_mixes_two_states:
  "update_leds_shared (\<lambda>i. test_state hw) hw = update_leds hw \<and>
   \<not> (truthy (leds (update_leds hw) NORMAL_PASS) \<and> truthy (leds (update_leds hw) NORMAL_FAIL)) \<and>
   truthy (leds (update_leds_shared racing_state passed_hw) NORMAL_PASS) \<and>
   truthy (leds (update_leds_shared racing_state passed_hw) NORMAL_FAIL)"
proof -
  have "\<not> (truthy (leds (update_leds hw) NORMAL_PASS) \<and> truthy (leds (update_leds hw) NORMAL_FAIL))"
    by (simp add: update_leds_def Let_def case_prod_beta time_time_def get_blink_state_def
        GPIO_output_def py_and_def py_not_def truthy_def)
  moreover have
    "truthy (leds (update_leds_shared racing_state passed_hw) NORMAL_PASS)"
    by (simp add: update_leds_shared_def Let_def case_prod_beta time_time_def get_blink_state_def
        GPIO_output_def racing_state_def passed_failed_state TestState_init_def py_and_def
        py_not_def truthy_def blink_state_at_eq float_add_def float_round_numeral)
  moreover have
    "truthy (leds (update_leds_shared racing_state passed_hw) NORMAL_FAIL)"
    by (simp add: update_leds_shared_def Let_def case_prod_beta time_time_def get_blink_state_def
        GPIO_output_def racing_state_def passed_failed_state TestState_init_def py_and_def
        py_not_def truthy_def)
  ultimately show ?thesis
    by (simp add: update_leds_alone)
qed

end
